theory Spec2Isabelle
  imports Complex_Main "HOL-Library.AList"
begin

section \<open>Python and numpy values used by fgcmcal\<close>

text \<open>
  Exceptions of the Python source are values.  Every function of the model that can
  raise returns a sum: \<open>Inl\<close> carries the exception, \<open>Inr\<close> the value returned.
\<close>

datatype error =
    RuntimeError string
  | AttributeError string
  | NameError string
  | KeyError string
  | TypeError string
  | IndexError
  | ValueError
  | ZeroDivisionError
  | NoResults string
  | LookupError string

text \<open>
  \<^verbatim>\<open>a[idx]\<close> for a one-dimensional numpy array \<open>a\<close> and an integer index array
  \<open>idx\<close> (fancy indexing): a fresh array with one entry per index, in the order of
  \<open>idx\<close>.  An index \<open>i\<close> with \<open>-n \<le> i < 0\<close> counts from the end; any index outside
  \<open>-n \<le> i < n\<close> raises IndexError.
\<close>

definition np_index :: "'a list \<Rightarrow> int \<Rightarrow> error + 'a" where
  "np_index a i =
     (let n = int (length a); j = (if i < 0 then n + i else i)
      in if 0 \<le> j \<and> j < n then Inr (a ! nat j) else Inl IndexError)"

fun np_take :: "'a list \<Rightarrow> int list \<Rightarrow> error + 'a list" where
  "np_take a [] = Inr []"
| "np_take a (i # idx) =
     (case np_index a i of
        Inl e \<Rightarrow> Inl e
      | Inr x \<Rightarrow> (case np_take a idx of Inl e \<Rightarrow> Inl e | Inr xs \<Rightarrow> Inr (x # xs)))"

text \<open>
  \<^verbatim>\<open>np.searchsorted(a, v)\<close> with the default \<open>side='left'\<close>: a bisection of the
  index range \<open>[lo, hi)\<close> that never reorders anything.  For a sorted \<open>a\<close> it returns the
  first position whose entry is not below \<open>v\<close>.
\<close>

function bisect_left :: "int list \<Rightarrow> int \<Rightarrow> nat \<Rightarrow> nat \<Rightarrow> nat" where
  "bisect_left a v lo hi =
     (if lo < hi then
        (let mid = lo + (hi - lo) div 2
         in if a ! mid < v then bisect_left a v (mid + 1) hi
            else bisect_left a v lo mid)
      else lo)"
  by pat_completeness auto
termination
  by (relation "measure (\<lambda>(a, v, lo, hi). hi - lo)") auto

definition searchsorted1 :: "int list \<Rightarrow> int \<Rightarrow> nat" where
  "searchsorted1 a v = bisect_left a v 0 (length a)"

definition searchsorted :: "int list \<Rightarrow> int list \<Rightarrow> nat list" where
  "searchsorted a vs = map (searchsorted1 a) vs"

section \<open>fgcmCalibrateTract: matching star observations to visits\<close>

text \<open>
  Lines 288--290 of \<^verbatim>\<open>runDataRef\<close>:
  \<^verbatim>\<open>
  obsIndex = fgcmStarIndicesCat['obsIndex']
  visitIndex = np.searchsorted(fgcmExpInfo['VISIT'],
                               fgcmStarObservationCat['visit'][obsIndex])
  \<close>
  \<open>VISIT\<close> is the visit column of the exposure table, \<open>visits\<close> the visit column of the
  raw observation table, \<open>obsIndex\<close> the selection produced by the star matching.
\<close>

definition matchObservationsToVisits ::
    "int list \<Rightarrow> int list \<Rightarrow> int list \<Rightarrow> error + (int list \<times> nat list)" where
  "matchObservationsToVisits VISIT visits obsIndex =
     (case np_take visits obsIndex of
        Inl e \<Rightarrow> Inl e
      | Inr sel \<Rightarrow> Inr (obsIndex, searchsorted VISIT sel))"


text \<open>
  One-dimensional numpy arithmetic with broadcasting: two arrays combine elementwise
  when their lengths agree or one of them has length one; otherwise numpy raises
  ValueError.  Floating-point numbers are modelled as reals.
\<close>

definition np_sub :: "real list \<Rightarrow> real list \<Rightarrow> error + real list" where
  "np_sub a b =
     (if length a = length b then Inr (map2 (-) a b)
      else if length a = 1 then Inr (map (\<lambda>y. hd a - y) b)
      else if length b = 1 then Inr (map (\<lambda>x. x - hd b) a)
      else Inl ValueError)"

text \<open>\<^verbatim>\<open>dst[:] = src\<close>: \<open>src\<close> must have the length of \<open>dst\<close>, or length one.\<close>

definition np_assign :: "real list \<Rightarrow> real list \<Rightarrow> error + real list" where
  "np_assign dst src =
     (if length src = length dst then Inr src
      else if length src = 1 then Inr (replicate (length dst) (hd src))
      else Inl ValueError)"

text \<open>\<^verbatim>\<open>np.alltrue(a < c)\<close>; true for the empty array.\<close>

definition np_alltrue_lt :: "real list \<Rightarrow> real \<Rightarrow> bool" where
  "np_alltrue_lt a c = list_all (\<lambda>d. d < c) a"

section \<open>fgcmCalibrateTract: the data of a run\<close>

text \<open>
  What a run logs and what it asks of its collaborators, in the order it happens.  A
  function that raises returns the exception together with the events up to that point.
\<close>

datatype logmsg =
    RunningOnTract int
  | RawRepeatabilityAfterCycle int
  | BandRepeatability string real
  | ConvergedAfterCycle int
  | SettingPhotometricityCuts
  | BandPhotometricityCut string real
  | MaxFitCyclesExceeded int
  | RunningFinalCleanup
  | RawRepeatabilityAfterCleanup

text \<open>The per-observation arguments of \<^verbatim>\<open>fgcmStars.loadStars\<close>.\<close>

record starColumns =
  obsVisit :: "int list"
  obsCcd :: "int list"
  obsRaDeg :: "real list"
  obsDecDeg :: "real list"
  obsMag :: "real list"
  obsMagErr :: "real list"
  obsFilterName :: "string list"
  obsX :: "real list"
  obsY :: "real list"

datatype event =
    LogInfo logmsg
  | LogWarn logmsg
  | BuildStars
  | GetLookUpTable
  | LoadStars starColumns
  | ReloadStarMagnitudes "real list" "real list"
  | FitRun
  | GenerateOutputProducts

type_synonym 'a result = "(error \<times> event list) + 'a"

definition bindR :: "'a result \<Rightarrow> ('a \<Rightarrow> 'b result) \<Rightarrow> 'b result" where
  "bindR m f = (case m of Inl e \<Rightarrow> Inl e | Inr a \<Rightarrow> f a)"

definition raisedAt :: "event list \<Rightarrow> error + 'a \<Rightarrow> 'a result" where
  "raisedAt tr m = (case m of Inl e \<Rightarrow> Inl (e, tr) | Inr a \<Rightarrow> Inr a)"

text \<open>The task configuration (\<^verbatim>\<open>FgcmCalibrateTractConfig\<close>) as far as \<^verbatim>\<open>runDataRef\<close> reads it.\<close>

record calibrateTractConfig =
  convergenceTolerance :: real
  maxFitCycles :: int
  doDebuggingPlots :: bool
  doReferenceMatches :: bool

text \<open>The engine's configuration object, \<^verbatim>\<open>fgcmFitCycle.fgcmConfig\<close>: the attributes the task sets.\<close>

record fgcmConfig =
  configCycleNumber :: int
  expGrayPhotometricCut :: "real list"
  expGrayHighCut :: "real list"
  precomputeSuperStarInitialCycle :: bool
  freezeStdAtmosphere :: bool
  resetParameters :: bool
  maxIter :: int
  outputZeropoints :: bool
  outputStandards :: bool
  doPlots :: bool

text \<open>
  The engine's fit-cycle object.  Values of the engine that the task only passes around
  (parameter objects, star objects, parameter arrays) have the opaque type \<open>'v\<close>.
\<close>

record 'v fitCycle =
  fgcmConfig :: fgcmConfig
  initialCycle :: bool
  fgcmStars :: 'v
  fgcmPars :: 'v
  updatedPhotometricCut :: "real list"
  updatedHighCut :: "real list"

text \<open>
  The engine (package \<^verbatim>\<open>fgcm\<close>) is not part of this repository: its operations are
  parameters of the model, taken as functions that return.  \<open>newFitCycle\<close> is the
  object made by \<^verbatim>\<open>fgcm.FgcmFitCycle(configDict, ...)\<close> with the look-up table set;
  \<open>loadStars\<close> is \<^verbatim>\<open>fgcm.FgcmStars(...)\<close> followed by its \<^verbatim>\<open>loadStars\<close>;
  \<^verbatim>\<open>setStars\<close>, \<^verbatim>\<open>setPars\<close> and \<^verbatim>\<open>updateCycleNumber\<close> store their argument.
\<close>

record 'v engine =
  newParsWithArrays :: "fgcmConfig \<Rightarrow> 'v"
  loadParsWithArrays :: "fgcmConfig \<Rightarrow> 'v option \<Rightarrow> 'v option \<Rightarrow> 'v option \<Rightarrow> 'v"
  parsToArrays :: "'v \<Rightarrow> 'v \<times> 'v"
  parSuperStarFlat :: "'v \<Rightarrow> 'v"
  compReservedRawRepeatability :: "'v \<Rightarrow> real list"
  nBands :: "'v \<Rightarrow> nat"
  bands :: "'v \<Rightarrow> string list"
  loadStars :: "'v \<Rightarrow> starColumns \<Rightarrow> 'v"
  reloadStarMagnitudes :: "'v \<Rightarrow> real list \<Rightarrow> real list \<Rightarrow> 'v"
  newFitCycle :: "'v fitCycle"
  finishSetup :: "'v fitCycle \<Rightarrow> 'v fitCycle"
  run :: "'v fitCycle \<Rightarrow> 'v fitCycle"

text \<open>A row of \<^verbatim>\<open>fgcmStarObservationCat\<close>, and what the run receives from the data butler
  and the star-building subtask.\<close>

record starObservation =
  visit :: int
  ccd :: int
  obs_ra :: real
  obs_dec :: real
  instMag :: real
  instMagErr :: real
  obs_x :: real
  obs_y :: real

record calibrateTractInputs =
  lookUpTableExists :: bool
  dataRefs :: "int list"
  expInfoVISIT :: "int list"
  expInfoFILTERNAME :: "string list"
  fgcmStarObservationCat :: "starObservation list"
  starIndicesObsIndex :: "int list"

text \<open>The local variables of \<^verbatim>\<open>runDataRef\<close> that live across the fit cycles.\<close>

record 'v cycleState =
  fgcmFitCycle :: "'v fitCycle"
  localPars :: 'v
  converged :: bool
  cycleNumber :: int
  previousReservedRawRepeatability :: "real list"
  previousParInfo :: "'v option"
  previousParams :: "'v option"
  previousSuperStar :: "'v option"
  trace :: "event list"

section \<open>fgcmCalibrateTract: the convergence loop\<close>

definition emit :: "event \<Rightarrow> 'v cycleState \<Rightarrow> 'v cycleState" where
  "emit e s = s\<lparr>trace := trace s @ [e]\<rparr>"

text \<open>
  \<^verbatim>\<open>for i, band in enumerate(bands): v = values[i] * 1000.0; self.log.info(...)\<close>
  raises IndexError at the first band that has no value.
\<close>

fun logPerBand ::
    "(string \<Rightarrow> real \<Rightarrow> logmsg) \<Rightarrow> string list \<Rightarrow> real list \<Rightarrow> nat \<Rightarrow>
     'v cycleState \<Rightarrow> 'v cycleState result" where
  "logPerBand f [] values i s = Inr s"
| "logPerBand f (band # rest) values i s =
     (if i < length values
      then logPerBand f rest values (i + 1) (emit (LogInfo (f band (values ! i * 1000))) s)
      else Inl (IndexError, trace s))"

text \<open>
  \<^verbatim>\<open>fgcmFitCycle.fgcmStars.reloadStarMagnitudes(
        fgcmStarObservationCat['instMag'][obsIndex],
        fgcmStarObservationCat['instMagErr'][obsIndex])\<close>
  (lines 345--346 and 401--402).
\<close>

definition reloadMagnitudes ::
    "'v engine \<Rightarrow> starObservation list \<Rightarrow> int list \<Rightarrow> 'v cycleState \<Rightarrow> 'v cycleState result" where
  "reloadMagnitudes E cat obsIndex s =
     bindR (raisedAt (trace s) (np_take (map instMag cat) obsIndex)) (\<lambda>mags.
     bindR (raisedAt (trace s) (np_take (map instMagErr cat) obsIndex)) (\<lambda>errs.
       Inr (emit (ReloadStarMagnitudes mags errs)
              (fgcmFitCycle_update
                 (fgcmStars_update (\<lambda>stars. reloadStarMagnitudes E stars mags errs)) s))))"

text \<open>Lines 334--361: set up and run one fit cycle, keep its parameters.\<close>

definition fitting ::
    "'v engine \<Rightarrow> starObservation list \<Rightarrow> int list \<Rightarrow> 'v cycleState \<Rightarrow> 'v cycleState result" where
  "fitting E cat obsIndex s0 =
     (let s1 = fgcmFitCycle_update
                 (fgcmConfig_update (configCycleNumber_update (\<lambda>_. cycleNumber s0))) s0
      in bindR
           (if cycleNumber s1 > 0 then
              bindR (reloadMagnitudes E cat obsIndex
                       (s1\<lparr>localPars :=
                             loadParsWithArrays E (fgcmConfig (fgcmFitCycle s1))
                               (previousParInfo s1) (previousParams s1) (previousSuperStar s1)\<rparr>))
                (\<lambda>s. Inr (fgcmFitCycle_update (initialCycle_update (\<lambda>_. False)) s))
            else Inr s1)
           (\<lambda>s2.
              let s3 = fgcmFitCycle_update (fgcmPars_update (\<lambda>_. localPars s2)) s2;
                  s4 = fgcmFitCycle_update (finishSetup E) s3;
                  s5 = emit FitRun (fgcmFitCycle_update (run E) s4);
                  pars = fgcmPars (fgcmFitCycle s5);
                  s6 = s5\<lparr>previousParInfo := Some (fst (parsToArrays E pars)),
                           previousParams := Some (snd (parsToArrays E pars)),
                           previousSuperStar := Some (parSuperStarFlat E pars)\<rparr>;
                  s7 = emit (LogInfo (RawRepeatabilityAfterCycle (cycleNumber s6))) s6
              in logPerBand BandRepeatability (bands E pars)
                   (compReservedRawRepeatability E pars) 0 s7))"

text \<open>Lines 363--380: the convergence check and what follows from it.\<close>

definition checkingConvergence ::
    "'v engine \<Rightarrow> calibrateTractConfig \<Rightarrow> 'v cycleState \<Rightarrow> 'v cycleState result" where
  "checkingConvergence E cfg s =
     (let fc = fgcmFitCycle s;
          current = compReservedRawRepeatability E (fgcmPars fc)
      in bindR (raisedAt (trace s) (np_sub (previousReservedRawRepeatability s) current))
           (\<lambda>delta.
              bindR
                (if np_alltrue_lt delta (convergenceTolerance cfg) then
                   Inr ((emit (LogInfo (ConvergedAfterCycle (cycleNumber s))) s)
                          \<lparr>converged := True\<rparr>)
                 else
                   bindR (raisedAt (trace s)
                            (np_assign (expGrayPhotometricCut (fgcmConfig fc))
                               (updatedPhotometricCut fc))) (\<lambda>photCut.
                   bindR (raisedAt (trace s)
                            (np_assign (expGrayHighCut (fgcmConfig fc))
                               (updatedHighCut fc))) (\<lambda>highCut.
                   bindR (raisedAt (trace s)
                            (np_assign (previousReservedRawRepeatability s) current)) (\<lambda>prev.
                     logPerBand BandPhotometricityCut (bands E (fgcmPars fc))
                       (updatedPhotometricCut fc) 0
                       (emit (LogInfo SettingPhotometricityCuts)
                          ((fgcmFitCycle_update
                              (fgcmConfig_update (\<lambda>c. c\<lparr>expGrayPhotometricCut := photCut,
                                   expGrayHighCut := highCut,
                                   precomputeSuperStarInitialCycle := False,
                                   freezeStdAtmosphere := False\<rparr>)) s)
                             \<lparr>previousReservedRawRepeatability := prev\<rparr>))))))
                (\<lambda>s'. Inr (s'\<lparr>cycleNumber := cycleNumber s' + 1\<rparr>))))"

definition oneFitCycle ::
    "'v engine \<Rightarrow> calibrateTractConfig \<Rightarrow> starObservation list \<Rightarrow> int list \<Rightarrow>
     'v cycleState \<Rightarrow> 'v cycleState result" where
  "oneFitCycle E cfg cat obsIndex s =
     bindR (fitting E cat obsIndex s) (checkingConvergence E cfg)"


lemma logPerBand_cycleNumber:
  "logPerBand f bs values i s = Inr s' \<Longrightarrow> cycleNumber s' = cycleNumber s"
  by (induction bs arbitrary: i s) (auto simp: emit_def split: if_splits)

lemma oneFitCycle_cycleNumber:
  assumes "oneFitCycle E cfg cat obsIndex s = Inr s'"
  shows "cycleNumber s' = cycleNumber s + 1"
proof -
  from assms obtain s1 where f: "fitting E cat obsIndex s = Inr s1"
    and c: "checkingConvergence E cfg s1 = Inr s'"
    by (auto simp: oneFitCycle_def bindR_def split: sum.splits)
  have "cycleNumber s1 = cycleNumber s"
    using f
    by (auto simp: fitting_def reloadMagnitudes_def bindR_def raisedAt_def emit_def Let_def
        dest!: logPerBand_cycleNumber split: sum.splits if_splits)
  moreover have "cycleNumber s' = cycleNumber s1 + 1"
    using c
    by (auto simp: checkingConvergence_def bindR_def raisedAt_def emit_def Let_def
        dest!: logPerBand_cycleNumber split: sum.splits if_splits)
  ultimately show ?thesis by simp
qed

text \<open>
  Lines 332--380:
  \<^verbatim>\<open>while (not converged and cycleNumber < self.config.maxFitCycles): ...\<close>
\<close>

function convergenceLoop ::
    "'v engine \<Rightarrow> calibrateTractConfig \<Rightarrow> starObservation list \<Rightarrow> int list \<Rightarrow>
     'v cycleState \<Rightarrow> 'v cycleState result" where
  "convergenceLoop E cfg cat obsIndex s =
     (if \<not> converged s \<and> cycleNumber s < maxFitCycles cfg then
        (case oneFitCycle E cfg cat obsIndex s of
           Inl e \<Rightarrow> Inl e
         | Inr s' \<Rightarrow> convergenceLoop E cfg cat obsIndex s')
      else Inr s)"
  by pat_completeness auto
termination
proof (relation "measure (\<lambda>(E, cfg, cat, obsIndex, s). nat (maxFitCycles cfg - cycleNumber s))")
  show "wf (measure (\<lambda>(E, cfg, cat, obsIndex, s :: 'v cycleState).
              nat (maxFitCycles cfg - cycleNumber s)))"
    by simp
next
  fix E :: "'v engine" and cfg cat obsIndex and s s' :: "'v cycleState"
  assume "\<not> converged s \<and> cycleNumber s < maxFitCycles cfg"
    and "oneFitCycle E cfg cat obsIndex s = Inr s'"
  then show "((E, cfg, cat, obsIndex, s'), (E, cfg, cat, obsIndex, s))
      \<in> measure (\<lambda>(E, cfg, cat, obsIndex, s). nat (maxFitCycles cfg - cycleNumber s))"
    using oneFitCycle_cycleNumber[of E cfg cat obsIndex s s'] by simp
qed

declare convergenceLoop.simps [simp del]

text \<open>Lines 382--412: the warning, and the final clean-up cycle.\<close>

definition warnIfNotConverged :: "'v cycleState \<Rightarrow> 'v cycleState" where
  "warnIfNotConverged s =
     (if \<not> converged s then emit (LogWarn (MaxFitCyclesExceeded (cycleNumber s))) s else s)"

definition finalCleanup ::
    "'v engine \<Rightarrow> calibrateTractConfig \<Rightarrow> starObservation list \<Rightarrow> int list \<Rightarrow>
     'v cycleState \<Rightarrow> 'v cycleState result" where
  "finalCleanup E cfg cat obsIndex s0 =
     (let s1 = fgcmFitCycle_update
                 (\<lambda>fc. fc\<lparr>fgcmConfig := (fgcmConfig fc)
                            \<lparr>freezeStdAtmosphere := False,
                             resetParameters := False,
                             maxIter := 0,
                             outputZeropoints := True,
                             outputStandards := True,
                             doPlots := doDebuggingPlots cfg,
                             configCycleNumber := cycleNumber s0\<rparr>,
                          initialCycle := False\<rparr>) s0;
          s2 = s1\<lparr>localPars :=
                    loadParsWithArrays E (fgcmConfig (fgcmFitCycle s1))
                      (previousParInfo s1) (previousParams s1) (previousSuperStar s1)\<rparr>
      in bindR (reloadMagnitudes E cat obsIndex s2)
           (\<lambda>s3.
              let s4 = fgcmFitCycle_update (fgcmPars_update (\<lambda>_. localPars s3)) s3;
                  s5 = emit (LogInfo RunningFinalCleanup) (fgcmFitCycle_update (finishSetup E) s4);
                  s6 = emit FitRun (fgcmFitCycle_update (run E) s5);
                  pars = fgcmPars (fgcmFitCycle s6)
              in logPerBand BandRepeatability (bands E pars)
                   (compReservedRawRepeatability E pars) 0
                   (emit (LogInfo RawRepeatabilityAfterCleanup) s6)))"

text \<open>
  \<^verbatim>\<open>conv = fgcmStarObservationCat[0]['ra'].asDegrees() / float(fgcmStarObservationCat[0]['ra'])\<close>
  (line 277): the first row must exist, and its right ascension in radians divides.
\<close>

definition degreesPerRadian :: "starObservation list \<Rightarrow> error + real" where
  "degreesPerRadian cat =
     (case cat of
        [] \<Rightarrow> Inl IndexError
      | row # _ \<Rightarrow>
          if obs_ra row = 0 then Inl ZeroDivisionError
          else Inr ((obs_ra row * 180 / pi) / obs_ra row))"

text \<open>\<^verbatim>\<open>cat[column][idx]\<close>: a column of a catalog, then the rows picked by \<open>idx\<close>.\<close>

definition column :: "'r list \<Rightarrow> ('r \<Rightarrow> 'a) \<Rightarrow> int list \<Rightarrow> error + 'a list" where
  "column cat field idx = np_take (map field cat) idx"

text \<open>\<^verbatim>\<open>np.zeros(n) + c\<close>.\<close>

definition np_zeros_plus :: "nat \<Rightarrow> real \<Rightarrow> real list" where
  "np_zeros_plus n c = map (\<lambda>z. z + c) (replicate n 0)"

text \<open>
  Lines 288--313: the index arrays, and the columns handed to the engine's star object.
  Python evaluates the arguments of \<^verbatim>\<open>loadStars\<close> from left to right; the keyword
  arguments \<^verbatim>\<open>obsX\<close> and \<^verbatim>\<open>obsY\<close> come last.
\<close>

definition bindE :: "error + 'a \<Rightarrow> ('a \<Rightarrow> error + 'b) \<Rightarrow> error + 'b" where
  "bindE m f = (case m of Inl e \<Rightarrow> Inl e | Inr a \<Rightarrow> f a)"

definition loadStarColumns ::
    "calibrateTractInputs \<Rightarrow> real \<Rightarrow> error + (int list \<times> nat list \<times> starColumns)" where
  "loadStarColumns inp conv =
     (let cat = fgcmStarObservationCat inp in
      bindE (matchObservationsToVisits (expInfoVISIT inp) (map visit cat)
               (starIndicesObsIndex inp)) (\<lambda>iv.
      let obsIndex = fst iv; visitIndex = snd iv in
      bindE (column cat visit obsIndex) (\<lambda>vs.
      bindE (column cat ccd obsIndex) (\<lambda>cs.
      bindE (column cat obs_ra obsIndex) (\<lambda>ras.
      bindE (column cat obs_dec obsIndex) (\<lambda>decs.
      bindE (column cat instMag obsIndex) (\<lambda>mags.
      bindE (column cat instMagErr obsIndex) (\<lambda>errs.
      bindE (np_take (expInfoFILTERNAME inp) (map int visitIndex)) (\<lambda>filters.
      bindE (column cat obs_x obsIndex) (\<lambda>xs.
      bindE (column cat obs_y obsIndex) (\<lambda>ys.
        Inr (obsIndex, visitIndex,
             \<lparr>obsVisit = vs, obsCcd = cs,
              obsRaDeg = map (\<lambda>r. r * conv) ras, obsDecDeg = map (\<lambda>d. d * conv) decs,
              obsMag = mags, obsMagErr = errs, obsFilterName = filters,
              obsX = xs, obsY = ys\<rparr>))))))))))))"

text \<open>
  \<^verbatim>\<open>runDataRef\<close>.  The star-building subtask, the look-up table and the camera are
  collaborators: their products are the inputs, and their calls are events.
\<close>

definition initialCycleState ::
    "'v engine \<Rightarrow> int \<Rightarrow> starColumns \<Rightarrow> 'v cycleState" where
  "initialCycleState E tract cols =
     (let fc = newFitCycle E;
          pars = newParsWithArrays E (fgcmConfig fc);
          stars = loadStars E pars cols
      in \<lparr>fgcmFitCycle = fc\<lparr>fgcmStars := stars\<rparr>,
          localPars = pars,
          converged = False,
          cycleNumber = 0,
          previousReservedRawRepeatability = np_zeros_plus (nBands E pars) 1000,
          previousParInfo = None,
          previousParams = None,
          previousSuperStar = None,
          trace = [LogInfo (RunningOnTract tract), BuildStars, GetLookUpTable,
                   LoadStars cols]\<rparr>)"

definition runDataRef ::
    "'v engine \<Rightarrow> calibrateTractConfig \<Rightarrow> calibrateTractInputs \<Rightarrow> 'v cycleState result" where
  "runDataRef E cfg inp =
     (if \<not> lookUpTableExists inp then
        Inl (RuntimeError ''Must run FgcmCalibrateTract with an fgcmLookUpTable'', [])
      else if \<not> doReferenceMatches cfg then
        Inl (RuntimeError
              ''Must run FgcmCalibrateTract with fgcmBuildStars.doReferenceMatches'', [])
      else
        bindR (raisedAt [] (np_index (dataRefs inp) 0)) (\<lambda>tract.
        let tr = [LogInfo (RunningOnTract tract), BuildStars, GetLookUpTable];
            cat = fgcmStarObservationCat inp
        in
        bindR (raisedAt tr (degreesPerRadian cat)) (\<lambda>conv.
        bindR (raisedAt tr (loadStarColumns inp conv)) (\<lambda>loaded.
        let obsIndex = fst loaded; cols = snd (snd loaded) in
        bindR (convergenceLoop E cfg cat obsIndex (initialCycleState E tract cols)) (\<lambda>s1.
        bindR (finalCleanup E cfg cat obsIndex (warnIfNotConverged s1)) (\<lambda>s2.
          Inr (emit GenerateOutputProducts s2)))))))"

text \<open>\<^verbatim>\<open>outStruct.repeatability\<close> of the value returned.\<close>

definition repeatability :: "'v engine \<Rightarrow> 'v cycleState \<Rightarrow> real list" where
  "repeatability E s = compReservedRawRepeatability E (fgcmPars (fgcmFitCycle s))"

section \<open>Reading a run's events\<close>

definition isLog :: "event \<Rightarrow> bool" where
  "isLog e = (case e of LogInfo _ \<Rightarrow> True | LogWarn _ \<Rightarrow> True | _ \<Rightarrow> False)"

text \<open>The calls to the collaborators, the number of engine fits, and the warnings of a run.\<close>

definition engineCalls :: "event list \<Rightarrow> event list" where
  "engineCalls tr = filter (\<lambda>e. \<not> isLog e) tr"

definition fitRuns :: "event list \<Rightarrow> nat" where
  "fitRuns tr = length (filter (\<lambda>e. e = FitRun) tr)"

definition warnings :: "event list \<Rightarrow> logmsg list" where
  "warnings tr = concat (map (\<lambda>e. case e of LogWarn m \<Rightarrow> [m] | _ \<Rightarrow> []) tr)"

definition bandLogs ::
    "(string \<Rightarrow> real \<Rightarrow> logmsg) \<Rightarrow> string list \<Rightarrow> real list \<Rightarrow> event list" where
  "bandLogs f bs vs = map (\<lambda>(b, v). LogInfo (f b (v * 1000))) (zip bs vs)"

text \<open>
  The engine calls of \<open>n\<close> cycles of the loop, counted from cycle 0: a fit, then for each
  later cycle a refresh of the magnitudes followed by a fit.
\<close>

definition cycleCalls :: "real list \<Rightarrow> real list \<Rightarrow> nat \<Rightarrow> event list" where
  "cycleCalls mags errs n =
     (case n of
        0 \<Rightarrow> []
      | Suc k \<Rightarrow> FitRun # concat (replicate k [ReloadStarMagnitudes mags errs, FitRun]))"

text \<open>
  The number of cycles until the convergence check first succeeds, when the cycles are
  run without the bound \<open>maxFitCycles\<close>; the search itself stops after \<open>fuel\<close> cycles, or
  when a cycle raises, and then answers \<open>None\<close>.
\<close>

fun cyclesUntilConvergence ::
    "nat \<Rightarrow> 'v engine \<Rightarrow> calibrateTractConfig \<Rightarrow> starObservation list \<Rightarrow> int list \<Rightarrow>
     'v cycleState \<Rightarrow> nat option" where
  "cyclesUntilConvergence 0 E cfg cat obsIndex s = None"
| "cyclesUntilConvergence (Suc fuel) E cfg cat obsIndex s =
     (case oneFitCycle E cfg cat obsIndex s of
        Inl e \<Rightarrow> None
      | Inr s' \<Rightarrow>
          if converged s' then Some 1
          else map_option Suc (cyclesUntilConvergence fuel E cfg cat obsIndex s'))"

text \<open>
  What the task relies on from the engine, for a run with \<open>n\<close> bands.  The configured
  photometric cuts have one entry per band, and the engine keeps it so.  After a fit the
  parameter object has one raw repeatability per band and no more band names than that,
  and the cuts the engine proposes have one entry per band.
\<close>

definition wellShaped :: "nat \<Rightarrow> 'v fitCycle \<Rightarrow> bool" where
  "wellShaped n fc =
     (length (expGrayPhotometricCut (fgcmConfig fc)) = n \<and>
      length (expGrayHighCut (fgcmConfig fc)) = n)"

definition fitShaped :: "'v engine \<Rightarrow> nat \<Rightarrow> 'v fitCycle \<Rightarrow> bool" where
  "fitShaped E n fc =
     (wellShaped n fc \<and>
      length (compReservedRawRepeatability E (fgcmPars fc)) = n \<and>
      length (bands E (fgcmPars fc)) \<le> n \<and>
      length (updatedPhotometricCut fc) = n \<and>
      length (updatedHighCut fc) = n)"

definition engineContract :: "'v engine \<Rightarrow> nat \<Rightarrow> bool" where
  "engineContract E n =
     (wellShaped n (newFitCycle E) \<and>
      nBands E (newParsWithArrays E (fgcmConfig (newFitCycle E))) = n \<and>
      (\<forall>fc. wellShaped n fc \<longrightarrow> wellShaped n (finishSetup E fc)) \<and>
      (\<forall>fc. wellShaped n fc \<longrightarrow> fitShaped E n (run E fc)))"

section \<open>A concrete run\<close>

text \<open>
  A small engine, task configuration and input, to run the model on.  The engine has two
  bands; its parameter object is the number of the cycle it was made for, and \<open>reps\<close>
  gives the raw repeatability the fit of that cycle ends with.  The input has three
  visits and five observations, three of them selected.
\<close>

definition exampleFitCycle :: "int fitCycle" where
  "exampleFitCycle =
     \<lparr>fgcmConfig =
        \<lparr>configCycleNumber = 0,
         expGrayPhotometricCut = [-0.05, -0.05],
         expGrayHighCut = [0.05, 0.05],
         precomputeSuperStarInitialCycle = True,
         freezeStdAtmosphere = True,
         resetParameters = True,
         maxIter = 50,
         outputZeropoints = False,
         outputStandards = False,
         doPlots = False\<rparr>,
      initialCycle = True,
      fgcmStars = 0,
      fgcmPars = 0,
      updatedPhotometricCut = [],
      updatedHighCut = []\<rparr>"

definition exampleEngine :: "(int \<Rightarrow> real \<times> real) \<Rightarrow> int engine" where
  "exampleEngine reps =
     \<lparr>newParsWithArrays = (\<lambda>c. 0),
      loadParsWithArrays = (\<lambda>c parInfo params superStar. configCycleNumber c),
      parsToArrays = (\<lambda>p. (p, p)),
      parSuperStarFlat = (\<lambda>p. p),
      compReservedRawRepeatability = (\<lambda>p. [fst (reps p), snd (reps p)]),
      nBands = (\<lambda>p. 2),
      bands = (\<lambda>p. [''g'', ''r'']),
      loadStars = (\<lambda>p cols. 0),
      reloadStarMagnitudes = (\<lambda>stars mags errs. stars + 1),
      newFitCycle = exampleFitCycle,
      finishSetup = (\<lambda>fc. fc),
      run = (\<lambda>fc. fc\<lparr>updatedPhotometricCut := [-0.04, -0.04],
                      updatedHighCut := [0.04, 0.04]\<rparr>)\<rparr>"

definition exampleConfig :: calibrateTractConfig where
  "exampleConfig =
     \<lparr>convergenceTolerance = 0.005, maxFitCycles = 5,
      doDebuggingPlots = False, doReferenceMatches = True\<rparr>"

definition exampleObservation :: "int \<Rightarrow> real \<Rightarrow> starObservation" where
  "exampleObservation v m =
     \<lparr>visit = v, ccd = 1, obs_ra = 1, obs_dec = 0, instMag = m, instMagErr = 0.01,
      obs_x = 100, obs_y = 200\<rparr>"

definition exampleInputs :: calibrateTractInputs where
  "exampleInputs =
     \<lparr>lookUpTableExists = True,
      dataRefs = [9813],
      expInfoVISIT = [10, 20, 30],
      expInfoFILTERNAME = [''g'', ''r'', ''g''],
      fgcmStarObservationCat =
        [exampleObservation 30 21, exampleObservation 5 22, exampleObservation 20 23,
         exampleObservation 10 24, exampleObservation 99 25],
      starIndicesObsIndex = [0, 2, 3]\<rparr>"

text \<open>The columns that \<open>exampleInputs\<close> hands to the engine's star object.\<close>

definition exampleColumns :: starColumns where
  "exampleColumns =
     \<lparr>obsVisit = [30, 20, 10], obsCcd = [1, 1, 1],
      obsRaDeg = [180 / pi, 180 / pi, 180 / pi], obsDecDeg = [0, 0, 0],
      obsMag = [21, 23, 24], obsMagErr = [0.01, 0.01, 0.01],
      obsFilterName = [''g'', ''r'', ''g''],
      obsX = [100, 100, 100], obsY = [200, 200, 200]\<rparr>"

text \<open>
  Three engines: one whose repeatability improves by 0.1 in every cycle, one that ends
  cycle 0 with \<open>(0.0200, 0.0180)\<close> and every later cycle with \<open>(0.0158, 0.0145)\<close>, and one
  whose repeatability is always \<open>(0.0201, 0.0185)\<close>.
\<close>

definition neverConverging :: "int \<Rightarrow> real \<times> real" where
  "neverConverging cycle = (1 - real_of_int cycle / 10, 2 - real_of_int cycle / 10)"

definition convergingAfterTwo :: "int \<Rightarrow> real \<times> real" where
  "convergingAfterTwo cycle = (if cycle = 0 then (0.0200, 0.0180) else (0.0158, 0.0145))"

definition slightlyWorse :: "int \<Rightarrow> real \<times> real" where
  "slightlyWorse cycle = (0.0201, 0.0185)"

section \<open>fgcmMakeLut: Python objects\<close>

text \<open>
  Values of the LUT builder.  An object is the dictionary of its attributes; reading an
  attribute it does not have raises AttributeError, and reading a name that no
  assignment of the function has bound raises NameError.
\<close>

datatype pyval =
    PyNone
  | PyInt int
  | PyFloat real
  | PyStr string
  | PyList "pyval list"
  | PyArray "real list"
  | PyDict "(pyval \<times> pyval) list"
  | PyObject string

type_synonym pyobject = "(string \<times> pyval) list"

definition getattr :: "pyobject \<Rightarrow> string \<Rightarrow> error + pyval" where
  "getattr obj name =
     (case map_of obj name of None \<Rightarrow> Inl (AttributeError name) | Some v \<Rightarrow> Inr v)"

definition nameLookup :: "pyobject \<Rightarrow> string \<Rightarrow> error + pyval" where
  "nameLookup scope name =
     (case map_of scope name of None \<Rightarrow> Inl (NameError name) | Some v \<Rightarrow> Inr v)"

text \<open>
  The fields that class \<^verbatim>\<open>FgcmMakeLutConfig\<close> declares, in the order of the source
  (lines 30--144).  A configuration of the task is an object with exactly these
  attributes.
\<close>

definition FgcmMakeLutConfig_fields :: "string list" where
  "FgcmMakeLutConfig_fields =
     [''bands'', ''elevation'',
      ''pmbRange'', ''pmbSteps'', ''pwvRange'', ''pwvSteps'', ''o3Range'', ''o3Steps'',
      ''tauRange'', ''tauSteps'', ''alphaRange'', ''alphaSteps'',
      ''zenithRange'', ''zenithSteps'',
      ''pmbStd'', ''pwvStd'', ''o3Std'', ''tauStd'', ''alphaStd'', ''airmassStd'',
      ''lambdaNorm'', ''lambdaStep'', ''lambdaRange'']"

definition isMakeLutConfig :: "pyobject \<Rightarrow> bool" where
  "isMakeLutConfig config = (map fst config = FgcmMakeLutConfig_fields)"

text \<open>
  The data butler, as far as the task uses it: the camera, a list of detectors, and the
  catalogs stored by name.  \<^verbatim>\<open>get('camera')\<close> raises when there is no camera.  A catalog is
  a schema, the fields with their sizes, and its records.
\<close>

record catalog =
  schema :: "(string \<times> nat option) list"
  records :: "pyobject list"

record butler =
  butlerCamera :: "pyval list option"
  butlerCatalogs :: "string \<Rightarrow> catalog option"

definition datasetExists :: "butler \<Rightarrow> string \<Rightarrow> bool" where
  "datasetExists b name = (butlerCatalogs b name \<noteq> None)"

definition getCamera :: "butler \<Rightarrow> error + pyval list" where
  "getCamera b =
     (case butlerCamera b of None \<Rightarrow> Inl (NoResults ''camera'') | Some c \<Rightarrow> Inr c)"

definition butlerPut :: "butler \<Rightarrow> catalog \<Rightarrow> string \<Rightarrow> butler" where
  "butlerPut b cat name = b\<lparr>butlerCatalogs := (butlerCatalogs b)(name \<mapsto> cat)\<rparr>"

text \<open>
  The LUT maker and the detector throughput come from outside this repository: they are
  parameters of the model, and each of their calls may raise.  \<open>makerAttr m a\<close> is the
  attribute \<open>a\<close> of the maker object.
\<close>

record 'm lutEngine =
  FgcmLUTMaker :: "pyobject \<Rightarrow> error + 'm"
  getThroughputDetector :: "pyval \<Rightarrow> pyval \<Rightarrow> pyval \<Rightarrow> error + pyval"
  setThroughputs :: "'m \<Rightarrow> (pyval \<times> pyval) list \<Rightarrow> error + 'm"
  makeLUT :: "'m \<Rightarrow> error + 'm"
  makerAttr :: "'m \<Rightarrow> string \<Rightarrow> error + pyval"

section \<open>fgcmMakeLut: the configuration dictionary\<close>

text \<open>
  Lines 260--284.  Every line is \<^verbatim>\<open>lutConfig[key] = self.config.attr\<close>, except
  \<^verbatim>\<open>lutConfig['nCCD'] = nCcd\<close>.  The list gives key and right-hand side, line by line.
\<close>

datatype rhs = ConfigAttr string | Local pyval

definition lutConfigLines :: "nat \<Rightarrow> (string \<times> rhs) list" where
  "lutConfigLines nCcd =
     [(''elevation'', ConfigAttr ''elevation''),
      (''bands'', ConfigAttr ''bands''),
      (''nCCD'', Local (PyInt (int nCcd))),
      (''pmbRange'', ConfigAttr ''pmbRange''),
      (''pmbSteps'', ConfigAttr ''pmbSteps''),
      (''pwvRange'', ConfigAttr ''pwvRange''),
      (''pwvSteps'', ConfigAttr ''pwvSteps''),
      (''o3Range'', ConfigAttr ''o3Range''),
      (''o3Steps'', ConfigAttr ''o3Steps''),
      (''tauRange'', ConfigAttr ''tauRange''),
      (''tauSteps'', ConfigAttr ''tauSteps''),
      (''alphaRange'', ConfigAttr ''alphaRange''),
      (''alphaSteps'', ConfigAttr ''alphaSteps''),
      (''zenithRange'', ConfigAttr ''zenithRange''),
      (''zenithSteps'', ConfigAttr ''zenithSteps''),
      (''pmbStd'', ConfigAttr ''pmbStd''),
      (''pwvStd'', ConfigAttr ''pwvStd''),
      (''o3Std'', ConfigAttr ''p3Std''),
      (''tauStd'', ConfigAttr ''tauStd''),
      (''alphaStd'', ConfigAttr ''alphaStd''),
      (''airmassStd'', ConfigAttr ''airmassStd''),
      (''lambdaRange'', ConfigAttr ''lambdaRange''),
      (''lambdaStep'', ConfigAttr ''lambdaStep''),
      (''lambdaNorm'', ConfigAttr ''lambdaNorm'')]"

definition evalRhs :: "pyobject \<Rightarrow> rhs \<Rightarrow> error + pyval" where
  "evalRhs config r = (case r of ConfigAttr a \<Rightarrow> getattr config a | Local v \<Rightarrow> Inr v)"

text \<open>\<^verbatim>\<open>d[key] = value\<close> on a dictionary.\<close>

definition dictSet :: "pyobject \<Rightarrow> string \<Rightarrow> pyval \<Rightarrow> pyobject" where
  "dictSet d key v = AList.update key v d"

fun assignLines :: "pyobject \<Rightarrow> (string \<times> rhs) list \<Rightarrow> pyobject \<Rightarrow> error + pyobject" where
  "assignLines config [] d = Inr d"
| "assignLines config ((key, r) # rest) d =
     bindE (evalRhs config r) (\<lambda>v. assignLines config rest (dictSet d key v))"

definition makeLutConfig :: "pyobject \<Rightarrow> nat \<Rightarrow> error + pyobject" where
  "makeLutConfig config nCcd = assignLines config (lutConfigLines nCcd) []"


section \<open>fgcmMakeLut: the throughput dictionary\<close>

definition pySubscript :: "pyval \<Rightarrow> int \<Rightarrow> error + pyval" where
  "pySubscript v i =
     (case v of
        PyList xs \<Rightarrow> np_index xs i
      | PyArray xs \<Rightarrow> bindE (np_index xs i) (\<lambda>r. Inr (PyFloat r))
      | _ \<Rightarrow> Inl (TypeError ''object is not subscriptable''))"

definition pyFloat :: "pyval \<Rightarrow> error + real" where
  "pyFloat v =
     (case v of
        PyFloat r \<Rightarrow> Inr r
      | PyInt i \<Rightarrow> Inr (real_of_int i)
      | _ \<Rightarrow> Inl (TypeError ''a number is required''))"

definition pyIter :: "pyval \<Rightarrow> error + pyval list" where
  "pyIter v =
     (case v of
        PyList xs \<Rightarrow> Inr xs
      | PyArray xs \<Rightarrow> Inr (map PyFloat xs)
      | PyStr s \<Rightarrow> Inr (map (\<lambda>c. PyStr [c]) s)
      | PyDict d \<Rightarrow> Inr (map fst d)
      | _ \<Rightarrow> Inl (TypeError ''object is not iterable''))"

text \<open>\<^verbatim>\<open>a / 10.\<close> for an array or a number.\<close>

definition pyDivide :: "pyval \<Rightarrow> real \<Rightarrow> error + pyval" where
  "pyDivide v c =
     (case v of
        PyArray xs \<Rightarrow> Inr (PyArray (map (\<lambda>x. x / c) xs))
      | PyFloat r \<Rightarrow> Inr (PyFloat (r / c))
      | PyInt i \<Rightarrow> Inr (PyFloat (real_of_int i / c))
      | _ \<Rightarrow> Inl (TypeError ''unsupported operand type(s) for /''))"

text \<open>\<^verbatim>\<open>np.arange(start, stop, step)\<close> for floats.\<close>

definition np_arange :: "real \<Rightarrow> real \<Rightarrow> real \<Rightarrow> error + real list" where
  "np_arange start stop step =
     (if step = 0 then Inl ZeroDivisionError
      else Inr (map (\<lambda>i. start + real i * step) [0..<nat \<lceil>(stop - start) / step\<rceil>]))"

text \<open>
  Lines 294--296:
  \<^verbatim>\<open>throughLambda = np.arange(self.config.lambdaRange[0], self.config.lambdaRange[1],
                                   self.config.lambdaStep*10.)\<close>
\<close>

definition throughLambda :: "pyobject \<Rightarrow> error + real list" where
  "throughLambda config =
     bindE (getattr config ''lambdaRange'') (\<lambda>r0.
     bindE (pySubscript r0 0) (\<lambda>v0.
     bindE (getattr config ''lambdaRange'') (\<lambda>r1.
     bindE (pySubscript r1 1) (\<lambda>v1.
     bindE (getattr config ''lambdaStep'') (\<lambda>st.
     bindE (pyFloat st) (\<lambda>step.
     bindE (pyFloat v0) (\<lambda>start.
     bindE (pyFloat v1) (\<lambda>stop.
       np_arange start stop (step * 10)))))))))"

text \<open>
  The names that \<^verbatim>\<open>_fgcmMakeLut\<close> has bound when it reaches line 301, and the names
  that the two loop headers and line 302 add.
\<close>

definition functionScope ::
    "pyval list \<Rightarrow> pyobject \<Rightarrow> real list \<Rightarrow> pyobject" where
  "functionScope camera lutConfig lam =
     [(''self'', PyObject ''FgcmMakeLutTask''),
      (''butler'', PyObject ''Butler''),
      (''camera'', PyList camera),
      (''nCcd'', PyInt (int (length camera))),
      (''lutConfig'', PyDict (map (\<lambda>(k, v). (PyStr k, v)) lutConfig)),
      (''throughLambda'', PyArray lam),
      (''tput'', PyObject ''DetectorThroughput''),
      (''throughputDict'', PyDict [])]"

definition bandScope :: "pyobject \<Rightarrow> nat \<Rightarrow> pyval \<Rightarrow> pyobject" where
  "bandScope scope i b =
     dictSet (dictSet (dictSet scope ''i'' (PyInt (int i))) ''b'' b) ''tDict'' (PyDict [])"

definition detectorScope :: "pyobject \<Rightarrow> nat \<Rightarrow> pyval \<Rightarrow> pyobject" where
  "detectorScope scope ccdIndex detector =
     dictSet (dictSet scope ''ccdIndex'' (PyInt (int ccdIndex))) ''detector'' detector"

text \<open>
  Lines 304--307, the loop over the detectors:
  \<^verbatim>\<open>tDict[ccdIndex] = tput.getThroughputDetector(detector, band, throughputLambda/10.)\<close>
\<close>

fun detectorLoop ::
    "'m lutEngine \<Rightarrow> pyobject \<Rightarrow> pyval list \<Rightarrow> nat \<Rightarrow> (pyval \<times> pyval) list \<Rightarrow>
     error + (pyval \<times> pyval) list" where
  "detectorLoop E scope [] ccdIndex tDict = Inr tDict"
| "detectorLoop E scope (detector # rest) ccdIndex tDict =
     bindE (nameLookup (detectorScope scope ccdIndex detector) ''detector'') (\<lambda>det.
     bindE (nameLookup (detectorScope scope ccdIndex detector) ''band'') (\<lambda>bandv.
     bindE (nameLookup (detectorScope scope ccdIndex detector) ''throughputLambda'') (\<lambda>lam.
     bindE (pyDivide lam 10) (\<lambda>lamNm.
     bindE (getThroughputDetector E det bandv lamNm) (\<lambda>t.
       detectorLoop E scope rest (ccdIndex + 1)
         (AList.update (PyInt (int ccdIndex)) t tDict))))))"

text \<open>Lines 301--308, the loop over the bands.\<close>

fun bandLoop ::
    "'m lutEngine \<Rightarrow> pyobject \<Rightarrow> pyval list \<Rightarrow> pyval list \<Rightarrow> nat \<Rightarrow>
     (pyval \<times> pyval) list \<Rightarrow> error + (pyval \<times> pyval) list" where
  "bandLoop E scope camera [] i throughputDict = Inr throughputDict"
| "bandLoop E scope camera (b # rest) i throughputDict =
     bindE (nameLookup (bandScope scope i b) ''throughputLambda'') (\<lambda>lam.
     bindE (detectorLoop E (bandScope scope i b) camera 0 [(PyStr ''LAMBDA'', lam)]) (\<lambda>tDict.
       bandLoop E scope camera rest (i + 1) (AList.update b (PyDict tDict) throughputDict)))"

section \<open>fgcmMakeLut: the catalog\<close>

text \<open>\<^verbatim>\<open>','.join(self.config.bands)\<close>.\<close>

fun joinComma :: "pyval list \<Rightarrow> error + string" where
  "joinComma [] = Inr []"
| "joinComma [PyStr s] = Inr s"
| "joinComma (PyStr s # rest) = bindE (joinComma rest) (\<lambda>t. Inr (s @ '','' @ t))"
| "joinComma (_ # rest) = Inl (TypeError ''sequence item: expected str instance'')"

text \<open>
  Lines 322--378: the fields added to the schema after \<^verbatim>\<open>bands\<close>, each with its size: none
  for a scalar, a number, or the \<^verbatim>\<open>size\<close> of an array of the maker.
\<close>

datatype fieldSize = Scalar | Fixed nat | SizeOf string

definition lutSchemaLines :: "(string \<times> fieldSize) list" where
  "lutSchemaLines =
     [(''pmb'', SizeOf ''pmb''), (''pmbfactor'', SizeOf ''pmb''), (''pmbElevation'', Scalar),
      (''pwv'', SizeOf ''pwv''), (''o3'', SizeOf ''o3''), (''tau'', SizeOf ''tau''),
      (''lambdanorm'', Scalar), (''alpha'', SizeOf ''alpha''), (''zenith'', SizeOf ''zenith''),
      (''nccd'', Scalar),
      (''pmbstd'', Scalar), (''pwvstd'', Scalar), (''o3std'', Scalar), (''taustd'', Scalar),
      (''alphastd'', Scalar), (''zenithstd'', Scalar),
      (''lambdarange'', Fixed 2), (''lambdastep'', Scalar),
      (''lambdastd'', SizeOf ''bands''), (''i0std'', SizeOf ''bands''),
      (''i1std'', SizeOf ''bands''), (''i10std'', SizeOf ''bands''),
      (''lambdab'', SizeOf ''bands''),
      (''atmlambda'', SizeOf ''atmLambda''), (''atmstdtrans'', SizeOf ''atmStd''),
      (''lut'', SizeOf ''lut''), (''lutderiv'', SizeOf ''lutDeriv'')]"

definition arraySize :: "pyval \<Rightarrow> error + nat" where
  "arraySize v =
     (case v of PyArray xs \<Rightarrow> Inr (length xs) | _ \<Rightarrow> Inl (AttributeError ''size''))"

definition evalFieldSize :: "'m lutEngine \<Rightarrow> 'm \<Rightarrow> fieldSize \<Rightarrow> error + nat option" where
  "evalFieldSize E maker fs =
     (case fs of
        Scalar \<Rightarrow> Inr None
      | Fixed n \<Rightarrow> Inr (Some n)
      | SizeOf a \<Rightarrow> bindE (makerAttr E maker a) (\<lambda>v. bindE (arraySize v) (\<lambda>n. Inr (Some n))))"

fun addFields ::
    "'m lutEngine \<Rightarrow> 'm \<Rightarrow> (string \<times> fieldSize) list \<Rightarrow> error + (string \<times> nat option) list" where
  "addFields E maker [] = Inr []"
| "addFields E maker ((name, fs) # rest) =
     bindE (evalFieldSize E maker fs) (\<lambda>n.
     bindE (addFields E maker rest) (\<lambda>fields. Inr ((name, n) # fields)))"

text \<open>
  Lines 385--413: the fields of the record set after \<^verbatim>\<open>bands\<close>, each from an attribute of
  the maker; the last two from the flattened look-up table and its derivative.
\<close>

datatype recordRhs = MakerAttr string | Flattened string

definition lutRecordLines :: "(string \<times> recordRhs) list" where
  "lutRecordLines =
     [(''pmb'', MakerAttr ''pmb''), (''pmbfactor'', MakerAttr ''pmbFactor''),
      (''pmbElevation'', MakerAttr ''pmbElevation''), (''pwv'', MakerAttr ''pwv''),
      (''o3'', MakerAttr ''o3''), (''tau'', MakerAttr ''tau''),
      (''lambdanorm'', MakerAttr ''lambdaNorm''), (''alpha'', MakerAttr ''alpha''),
      (''zenith'', MakerAttr ''zenith''), (''nccd'', MakerAttr ''nCCD''),
      (''pmbstd'', MakerAttr ''pmbStd''), (''pwvstd'', MakerAttr ''pwvStd''),
      (''o3std'', MakerAttr ''o3Std''), (''taustd'', MakerAttr ''tauStd''),
      (''alphastd'', MakerAttr ''alphaStd''), (''zenithstd'', MakerAttr ''zenithStd''),
      (''lambdarange'', MakerAttr ''lambdaRange''), (''lambdastep'', MakerAttr ''lambdaStep''),
      (''lambdastd'', MakerAttr ''lambdaStd''), (''i0std'', MakerAttr ''i0Std''),
      (''i1std'', MakerAttr ''i1Std''), (''i10std'', MakerAttr ''i10Std''),
      (''lambdab'', MakerAttr ''lambdab''), (''atmlambda'', MakerAttr ''atmlambda''),
      (''atmstdtrans'', MakerAttr ''atmstdtrans''),
      (''lut'', Flattened ''lut''), (''lutderiv'', Flattened ''lutDeriv'')]"

definition flatten :: "pyval \<Rightarrow> error + pyval" where
  "flatten v =
     (case v of PyArray xs \<Rightarrow> Inr (PyArray xs) | _ \<Rightarrow> Inl (AttributeError ''flatten''))"

definition evalRecordRhs :: "'m lutEngine \<Rightarrow> 'm \<Rightarrow> recordRhs \<Rightarrow> error + pyval" where
  "evalRecordRhs E maker r =
     (case r of
        MakerAttr a \<Rightarrow> makerAttr E maker a
      | Flattened a \<Rightarrow> bindE (makerAttr E maker a) flatten)"

fun setFields ::
    "'m lutEngine \<Rightarrow> 'm \<Rightarrow> (string \<times> recordRhs) list \<Rightarrow> pyobject \<Rightarrow> error + pyobject" where
  "setFields E maker [] rec = Inr rec"
| "setFields E maker ((name, r) # rest) rec =
     bindE (evalRecordRhs E maker r) (\<lambda>v. setFields E maker rest (dictSet rec name v))"

text \<open>Lines 253--413: everything between the check for an existing table and the put.\<close>

definition makeLutCatalog :: "'m lutEngine \<Rightarrow> pyobject \<Rightarrow> butler \<Rightarrow> error + catalog" where
  "makeLutCatalog E config b =
     bindE (getCamera b) (\<lambda>camera.
     bindE (makeLutConfig config (length camera)) (\<lambda>lutConfig.
     bindE (FgcmLUTMaker E lutConfig) (\<lambda>maker.
     bindE (throughLambda config) (\<lambda>lam.
     bindE (getattr config ''bands'') (\<lambda>bandsAttr.
     bindE (pyIter bandsAttr) (\<lambda>bs.
     bindE (bandLoop E (functionScope camera lutConfig lam) camera bs 0 []) (\<lambda>throughputDict.
     bindE (setThroughputs E maker throughputDict) (\<lambda>maker1.
     bindE (makeLUT E maker1) (\<lambda>maker2.
     bindE (getattr config ''bands'') (\<lambda>bandsAttr2.
     bindE (pyIter bandsAttr2) (\<lambda>bs2.
     bindE (joinComma bs2) (\<lambda>bandString.
     bindE (addFields E maker2 lutSchemaLines) (\<lambda>fields.
     bindE (setFields E maker2 lutRecordLines [(''bands'', PyStr bandString)]) (\<lambda>rec.
       Inr \<lparr>schema = (''bands'', Some (length bandString)) # fields,
            records = [rec]\<rparr>))))))))))))))"

text \<open>
  \<^verbatim>\<open>_fgcmMakeLut\<close> and \<^verbatim>\<open>run\<close>.  The result is the exception raised, if any, and the
  butler as the call leaves it.
\<close>

definition fgcmMakeLut :: "'m lutEngine \<Rightarrow> pyobject \<Rightarrow> butler \<Rightarrow> error option \<times> butler" where
  "fgcmMakeLut E config b =
     (if datasetExists b ''fgcmLookUpTable'' then (None, b)
      else case makeLutCatalog E config b of
             Inl e \<Rightarrow> (Some e, b)
           | Inr lutCat \<Rightarrow> (None, butlerPut b lutCat ''fgcmLookUpTable''))"

definition makeLutRun :: "'m lutEngine \<Rightarrow> pyobject \<Rightarrow> butler \<Rightarrow> error option \<times> butler" where
  "makeLutRun E config b =
     (if \<not> datasetExists b ''fgcmLut'' then fgcmMakeLut E config b else (None, b))"

section \<open>fgcmMakeLut: concrete inputs\<close>


definition exampleLutEngine :: "unit lutEngine" where
  "exampleLutEngine =
     \<lparr>FgcmLUTMaker = (\<lambda>lutConfig. Inr ()),
      getThroughputDetector = (\<lambda>detector band lam. Inr (PyArray [1])),
      setThroughputs = (\<lambda>maker d. Inr maker),
      makeLUT = (\<lambda>maker. Inr maker),
      makerAttr = (\<lambda>maker a. Inr (PyArray [1, 2]))\<rparr>"

definition exampleLutConfig :: "int \<Rightarrow> real \<Rightarrow> real \<Rightarrow> pyobject" where
  "exampleLutConfig pmbSteps pmbMin pmbMax =
     [(''bands'', PyList [PyStr ''g'', PyStr ''r'']), (''elevation'', PyFloat 4150),
      (''pmbRange'', PyList [PyFloat pmbMin, PyFloat pmbMax]), (''pmbSteps'', PyInt pmbSteps),
      (''pwvRange'', PyList [PyFloat 0.1, PyFloat 12]), (''pwvSteps'', PyInt 21),
      (''o3Range'', PyList [PyFloat 220, PyFloat 310]), (''o3Steps'', PyInt 3),
      (''tauRange'', PyList [PyFloat 0.002, PyFloat 0.25]), (''tauSteps'', PyInt 11),
      (''alphaRange'', PyList [PyFloat 0, PyFloat 2]), (''alphaSteps'', PyInt 9),
      (''zenithRange'', PyList [PyFloat 0, PyFloat 70]), (''zenithSteps'', PyInt 21),
      (''pmbStd'', PyFloat 778), (''pwvStd'', PyFloat 3), (''o3Std'', PyFloat 263),
      (''tauStd'', PyFloat 0.03), (''alphaStd'', PyFloat 1), (''airmassStd'', PyFloat 1.25),
      (''lambdaNorm'', PyFloat 7750), (''lambdaStep'', PyFloat 0.5),
      (''lambdaRange'', PyList [PyFloat 3000, PyFloat 11000])]"

definition exampleButler :: "bool \<Rightarrow> butler" where
  "exampleButler withTable =
     \<lparr>butlerCamera = Some [PyObject ''Detector0'', PyObject ''Detector1''],
      butlerCatalogs =
        (\<lambda>name. if withTable \<and> name = ''fgcmLookUpTable''
                 then Some \<lparr>schema = [], records = []\<rparr> else None)\<rparr>"

section \<open>fgcmLoadReferenceCatalog: data\<close>

text \<open>
  A reference catalog as the loader returns it: the coordinates in radians and the
  columns by name.  The loader, the source selector and the color terms come from outside
  this repository and are parameters; each call that can raise returns a sum.  Floats are
  reals, so \<^verbatim>\<open>np.nan_to_num\<close> has nothing to replace.
\<close>

record refCatalog =
  coord_ra :: "real list"
  coord_dec :: "real list"
  refColumns :: "string \<Rightarrow> real list option"

record 'c referenceLoader =
  loadSkyCircle :: "real \<Rightarrow> string option \<Rightarrow> error + refCatalog"
  getRefFluxField :: "refCatalog \<Rightarrow> string \<Rightarrow> error + string"
  selectSources :: "refCatalog \<Rightarrow> bool list"
  ref_dataset_name :: "string option"
  getColorterm :: "string \<Rightarrow> string \<Rightarrow> error + 'c"
  getCorrectedMagnitudes :: "'c \<Rightarrow> refCatalog \<Rightarrow> string \<Rightarrow> error + (real list \<times> real list)"
  fluxToABmag :: "real \<Rightarrow> real"
  abMagErrFromFluxErr :: "real \<Rightarrow> real \<Rightarrow> real"

record loadReferenceConfig =
  refFilterMap :: "string \<Rightarrow> string option"
  applyColorTerms :: bool

text \<open>
  The attributes \<^verbatim>\<open>_fluxFilters\<close>, \<^verbatim>\<open>_fluxFields\<close> and \<^verbatim>\<open>_referenceFilter\<close> of the task,
  and the camera filters it has warned about.
\<close>

record loadReferenceState =
  fluxFilters :: "string list option"
  fluxFields :: "string option list"
  referenceFilter :: "string option"
  warned :: "string list"

record fgcmRefCat =
  refRa :: "real list"
  refDec :: "real list"
  refMag :: "real list list"
  refMagErr :: "real list list"

text \<open>\<^verbatim>\<open>except RuntimeError:\<close> catches RuntimeError and its subclasses.\<close>

definition isRuntimeError :: "error \<Rightarrow> bool" where
  "isRuntimeError e = (case e of RuntimeError _ \<Rightarrow> True | NoResults _ \<Rightarrow> True | _ \<Rightarrow> False)"

section \<open>fgcmLoadReferenceCatalog: the flux fields\<close>

text \<open>
  The methods of the task change its attributes, also when they raise: each returns its
  outcome together with the attributes as it leaves them.

  Lines 314--334 of \<^verbatim>\<open>_determine_flux_fields\<close>: the first camera filter that is in
  \<^verbatim>\<open>refFilterMap\<close> and that the loader accepts gives the reference filter and the test
  catalog \<^verbatim>\<open>results\<close>.  A filter that is not in the map is warned about and passed
  over; a RuntimeError of the loader is passed over in silence.
\<close>

fun findReferenceFilter ::
    "'c referenceLoader \<Rightarrow> loadReferenceConfig \<Rightarrow> string list \<Rightarrow> loadReferenceState \<Rightarrow>
     (error + refCatalog option) \<times> loadReferenceState" where
  "findReferenceFilter L cfg [] st = (Inr None, st)"
| "findReferenceFilter L cfg (filterName # rest) st =
     (case refFilterMap cfg filterName of
        None \<Rightarrow> findReferenceFilter L cfg rest (st\<lparr>warned := warned st @ [filterName]\<rparr>)
      | Some refFilterName \<Rightarrow>
          (case loadSkyCircle L 0.05 (Some refFilterName) of
             Inr results \<Rightarrow> (Inr (Some results), st\<lparr>referenceFilter := Some refFilterName\<rparr>)
           | Inl e \<Rightarrow>
               if isRuntimeError e then findReferenceFilter L cfg rest st else (Inl e, st)))"

text \<open>Lines 341--359: the flux field of each camera filter, or \<^verbatim>\<open>None\<close>.\<close>

definition fluxFieldOf ::
    "'c referenceLoader \<Rightarrow> loadReferenceConfig \<Rightarrow> refCatalog \<Rightarrow> string \<Rightarrow>
     error + string option" where
  "fluxFieldOf L cfg results filterName =
     (case refFilterMap cfg filterName of
        None \<Rightarrow> Inr None
      | Some refFilterName \<Rightarrow>
          (case getRefFluxField L results refFilterName of
             Inr fluxField \<Rightarrow> Inr (Some fluxField)
           | Inl e \<Rightarrow> if isRuntimeError e then Inr None else Inl e))"

fun retrieveFluxFields ::
    "'c referenceLoader \<Rightarrow> loadReferenceConfig \<Rightarrow> refCatalog \<Rightarrow> string list \<Rightarrow>
     loadReferenceState \<Rightarrow> error option \<times> loadReferenceState" where
  "retrieveFluxFields L cfg results [] st = (None, st)"
| "retrieveFluxFields L cfg results (filterName # rest) st =
     (case fluxFieldOf L cfg results filterName of
        Inl e \<Rightarrow> (Some e, st)
      | Inr fluxField \<Rightarrow>
          retrieveFluxFields L cfg results rest
            (st\<lparr>fluxFields := fluxFields st @ [fluxField],
                warned := (if fluxField = None then warned st @ [filterName]
                           else warned st)\<rparr>))"

definition determine_flux_fields ::
    "'c referenceLoader \<Rightarrow> loadReferenceConfig \<Rightarrow> string list \<Rightarrow> loadReferenceState \<Rightarrow>
     error option \<times> loadReferenceState" where
  "determine_flux_fields L cfg filterList st =
     (case findReferenceFilter L cfg filterList (st\<lparr>fluxFilters := Some filterList\<rparr>) of
        (Inl e, st1) \<Rightarrow> (Some e, st1)
      | (Inr None, st1) \<Rightarrow>
          (Some (RuntimeError ''Could not find any valid flux field(s)''), st1)
      | (Inr (Some results), st1) \<Rightarrow>
          retrieveFluxFields L cfg results filterList (st1\<lparr>fluxFields := []\<rparr>))"

section \<open>fgcmLoadReferenceCatalog: the reference magnitudes\<close>

text \<open>\<^verbatim>\<open>a[mask]\<close> for a boolean mask: the mask must have the length of the array.\<close>

definition maskSelect :: "'a list \<Rightarrow> bool list \<Rightarrow> error + 'a list" where
  "maskSelect a selected =
     (if length selected = length a then Inr (map fst (filter snd (zip a selected)))
      else Inl IndexError)"

text \<open>
  \<^verbatim>\<open>cat[column][good, i] = values[good]\<close>, where \<open>good\<close> are the rows that satisfy \<open>ok\<close>:
  row by row, entry \<open>i\<close> is replaced where the row is good.
\<close>

definition setGood ::
    "nat \<Rightarrow> (real \<Rightarrow> real \<Rightarrow> bool) \<Rightarrow> real list \<Rightarrow> real list \<Rightarrow> real list \<Rightarrow>
     real list list \<Rightarrow> real list list" where
  "setGood i ok a b values rows =
     map (\<lambda>(row, x, y, v). if ok x y then row[i := v] else row)
       (zip rows (zip a (zip b values)))"

text \<open>Lines 255--275: one pass of the loop that applies the color terms.\<close>

definition colorTermPass ::
    "'c referenceLoader \<Rightarrow> refCatalog \<Rightarrow> bool list \<Rightarrow> string \<Rightarrow> nat \<Rightarrow>
     string \<times> string option \<Rightarrow> fgcmRefCat \<Rightarrow> error + fgcmRefCat" where
  "colorTermPass L refCat selected refCatName i band cat =
     (case snd band of
        None \<Rightarrow> Inr cat
      | Some fluxField \<Rightarrow>
          bindE (getColorterm L (fst band) refCatName) (\<lambda>colorterm.
          bindE (getCorrectedMagnitudes L colorterm refCat (fst band)) (\<lambda>corrected.
          bindE (maskSelect (fst corrected) selected) (\<lambda>mags.
          bindE (maskSelect (snd corrected) selected) (\<lambda>errs.
            Inr (cat\<lparr>refMag :=
                       setGood i (\<lambda>m e. m < 90 \<and> e < 90 \<and> e > 0) mags errs mags (refMag cat),
                     refMagErr :=
                       setGood i (\<lambda>m e. m < 90 \<and> e < 90 \<and> e > 0) mags errs errs
                         (refMagErr cat)\<rparr>))))))"

text \<open>
  Lines 282--291: one pass of the loop without color terms.  A flux field that is
  \<^verbatim>\<open>None\<close> is used as it is: \<^verbatim>\<open>refCat[fluxField]\<close> raises.
\<close>

definition refColumn :: "refCatalog \<Rightarrow> string \<Rightarrow> error + real list" where
  "refColumn refCat name =
     (case refColumns refCat name of None \<Rightarrow> Inl (KeyError name) | Some c \<Rightarrow> Inr c)"

definition fluxPass ::
    "'c referenceLoader \<Rightarrow> refCatalog \<Rightarrow> bool list \<Rightarrow> nat \<Rightarrow>
     string \<times> string option \<Rightarrow> fgcmRefCat \<Rightarrow> error + fgcmRefCat" where
  "fluxPass L refCat selected i band cat =
     (case snd band of
        None \<Rightarrow> Inl (TypeError ''NoneType'')
      | Some fluxField \<Rightarrow>
          bindE (refColumn refCat fluxField) (\<lambda>flux.
          bindE (maskSelect flux selected) (\<lambda>fluxes.
          bindE (refColumn refCat (fluxField @ ''Err'')) (\<lambda>fluxErr.
          bindE (maskSelect fluxErr selected) (\<lambda>fluxErrs.
            Inr (cat\<lparr>refMag :=
                       setGood i (\<lambda>f e. f > 0 \<and> e > 0) fluxes fluxErrs
                         (map (fluxToABmag L) fluxes) (refMag cat),
                     refMagErr :=
                       setGood i (\<lambda>f e. f > 0 \<and> e > 0) fluxes fluxErrs
                         (map2 (abMagErrFromFluxErr L) fluxErrs fluxes) (refMagErr cat)\<rparr>))))))"

text \<open>\<^verbatim>\<open>for i, band in enumerate(zip(self._fluxFilters, self._fluxFields)): ...\<close>\<close>

fun forBands ::
    "(nat \<Rightarrow> string \<times> string option \<Rightarrow> fgcmRefCat \<Rightarrow> error + fgcmRefCat) \<Rightarrow>
     (string \<times> string option) list \<Rightarrow> nat \<Rightarrow> fgcmRefCat \<Rightarrow> error + fgcmRefCat" where
  "forBands pass [] i cat = Inr cat"
| "forBands pass (band # rest) i cat =
     bindE (pass i band cat) (forBands pass rest (i + 1))"

text \<open>
  \<^verbatim>\<open>conv = refCat[0]['coord_ra'].asDegrees() / float(refCat[0]['coord_ra'])\<close> (line 239).
\<close>

definition refDegreesPerRadian :: "refCatalog \<Rightarrow> error + real" where
  "refDegreesPerRadian refCat =
     (case coord_ra refCat of
        [] \<Rightarrow> Inl IndexError
      | r # _ \<Rightarrow> if r = 0 then Inl ZeroDivisionError else Inr ((r * 180 / pi) / r))"

text \<open>
  \<^verbatim>\<open>getFgcmReferenceStarsSkyCircle\<close>: lines 212--293, which only read the attributes of
  the task, and then the whole method.
\<close>

text \<open>\<^verbatim>\<open>zip(self._fluxFilters, self._fluxFields)\<close>; \<^verbatim>\<open>None\<close> cannot be zipped.\<close>

definition zipBands :: "loadReferenceState \<Rightarrow> error + (string \<times> string option) list" where
  "zipBands st =
     (case fluxFilters st of
        None \<Rightarrow> Inl (TypeError ''NoneType'')
      | Some filters \<Rightarrow> Inr (zip filters (fluxFields st)))"

definition referenceMagnitudes ::
    "'c referenceLoader \<Rightarrow> loadReferenceConfig \<Rightarrow> real \<Rightarrow> string list \<Rightarrow>
     loadReferenceState \<Rightarrow> error + fgcmRefCat" where
  "referenceMagnitudes L cfg radius filterList st =
     bindE (loadSkyCircle L radius (referenceFilter st)) (\<lambda>refCat.
     let selected = selectSources L refCat;
         n = length (filter id selected);
         nBand = length filterList
     in if n = 0 then Inr \<lparr>refRa = [], refDec = [], refMag = [], refMagErr = []\<rparr>
        else
          bindE (refDegreesPerRadian refCat) (\<lambda>conv.
          bindE (maskSelect (coord_ra refCat) selected) (\<lambda>ras.
          bindE (maskSelect (coord_dec refCat) selected) (\<lambda>decs.
          let cat = \<lparr>refRa = map (\<lambda>r. r * conv) ras,
                     refDec = map (\<lambda>d. d * conv) decs,
                     refMag = replicate n (replicate nBand 99),
                     refMagErr = replicate n (replicate nBand 99)\<rparr>
          in if applyColorTerms cfg then
               (case ref_dataset_name L of
                  None \<Rightarrow>
                    Inl (RuntimeError
                           ''Cannot perform colorterm corrections with a.net refcats.'')
                | Some refCatName \<Rightarrow>
                    bindE (zipBands st) (\<lambda>bandList.
                      forBands (colorTermPass L refCat selected refCatName) bandList 0 cat))
             else
               bindE (zipBands st) (\<lambda>bandList.
                 forBands (fluxPass L refCat selected) bandList 0 cat)))))"

definition getFgcmReferenceStarsSkyCircle ::
    "'c referenceLoader \<Rightarrow> loadReferenceConfig \<Rightarrow> real \<Rightarrow> string list \<Rightarrow>
     loadReferenceState \<Rightarrow> (error + fgcmRefCat) \<times> loadReferenceState" where
  "getFgcmReferenceStarsSkyCircle L cfg radius filterList st0 =
     (if fluxFilters st0 = None \<or> fluxFilters st0 \<noteq> Some filterList then
        (case determine_flux_fields L cfg filterList st0 of
           (Some e, st) \<Rightarrow> (Inl e, st)
         | (None, st) \<Rightarrow> (referenceMagnitudes L cfg radius filterList st, st))
      else (referenceMagnitudes L cfg radius filterList st0, st0))"

text \<open>
  The reference filter lookup of a camera filter fails when the filter is not in
  \<^verbatim>\<open>refFilterMap\<close>, or when the reference catalog has no flux field for it
  (\<^verbatim>\<open>getRefFluxField\<close> raises a RuntimeError).
\<close>

definition lookupFails :: "'c referenceLoader \<Rightarrow> loadReferenceConfig \<Rightarrow> string \<Rightarrow> bool" where
  "lookupFails L cfg filterName =
     (case refFilterMap cfg filterName of
        None \<Rightarrow> True
      | Some refFilterName \<Rightarrow>
          (\<forall>results. \<exists>e. getRefFluxField L results refFilterName = Inl e \<and> isRuntimeError e))"

text \<open>Band \<open>i\<close> of every row holds the sentinel 99.\<close>

definition sentinelAt :: "nat \<Rightarrow> real list list \<Rightarrow> bool" where
  "sentinelAt i rows = list_all (\<lambda>row. row ! i = 99) rows"

section \<open>fgcmLoadReferenceCatalog: concrete inputs\<close>

text \<open>
  A reference catalog of two sources, a loader that always returns it, with or without
  a color term for the camera filter \<open>i\<close>, and a configuration that applies color terms
  and maps the filter \<open>r\<close>, and \<open>i\<close> or not.
\<close>

definition exampleRefCatalog :: refCatalog where
  "exampleRefCatalog =
     \<lparr>coord_ra = [1, 2], coord_dec = [0, 0],
      refColumns = (\<lambda>name. if name = ''r_flux'' \<or> name = ''r_fluxErr'' then Some [1, 1]
                            else None)\<rparr>"

definition exampleLoader :: "bool \<Rightarrow> unit referenceLoader" where
  "exampleLoader colortermForI =
     \<lparr>loadSkyCircle = (\<lambda>radius refFilterName. Inr exampleRefCatalog),
      getRefFluxField = (\<lambda>results refFilterName. Inr (refFilterName @ ''_flux'')),
      selectSources = (\<lambda>refCat. [True, True]),
      ref_dataset_name = Some ''ps1_pv3_3pi_20170110'',
      getColorterm = (\<lambda>filterName photoCatName.
         if filterName = ''i'' \<and> \<not> colortermForI
         then Inl (LookupError ''No colorterm found for filter i'') else Inr ()),
      getCorrectedMagnitudes = (\<lambda>colorterm refCat filterName. Inr ([20, 21], [0.1, 0.2])),
      fluxToABmag = (\<lambda>flux. 8.9 - 2.5 * log 10 flux),
      abMagErrFromFluxErr = (\<lambda>fluxErr flux. 2.5 / ln 10 * fluxErr / flux)\<rparr>"

definition exampleRefConfig :: "bool \<Rightarrow> loadReferenceConfig" where
  "exampleRefConfig mapI =
     \<lparr>refFilterMap = (\<lambda>filterName. if filterName = ''r'' then Some ''r''
                                     else if filterName = ''i'' \<and> mapI then Some ''i''
                                     else None),
      applyColorTerms = True\<rparr>"

definition freshState :: loadReferenceState where
  "freshState = \<lparr>fluxFilters = None, fluxFields = [], referenceFilter = None, warned = []\<rparr>"

section \<open>Properties of the numpy operations\<close>

lemma np_take_length: "np_take a idx = Inr xs \<Longrightarrow> length xs = length idx"
  by (induction idx arbitrary: xs) (auto split: sum.splits)

lemma np_take_nth:
  "np_take a idx = Inr xs \<Longrightarrow> k < length idx \<Longrightarrow> np_index a (idx ! k) = Inr (xs ! k)"
proof (induction idx arbitrary: xs k)
  case Nil
  then show ?case by simp
next
  case (Cons i idx)
  then show ?case
    by (cases k) (auto split: sum.splits)
qed

lemma bisect_left_bounds:
  "lo \<le> hi \<Longrightarrow> lo \<le> bisect_left a v lo hi \<and> bisect_left a v lo hi \<le> hi"
proof (induction a v lo hi rule: bisect_left.induct)
  case (1 a v lo hi)
  show ?case
  proof (cases "lo < hi")
    case False
    with "1.prems" show ?thesis by simp
  next
    case True
    define mid where "mid = lo + (hi - lo) div 2"
    have m: "lo \<le> mid" "mid < hi" using True by (auto simp: mid_def)
    show ?thesis
    proof (cases "a ! mid < v")
      case True
      have "mid + 1 \<le> bisect_left a v (mid + 1) hi \<and> bisect_left a v (mid + 1) hi \<le> hi"
        using "1.IH"(1)[OF \<open>lo < hi\<close> mid_def True] m by simp
      moreover have "bisect_left a v lo hi = bisect_left a v (mid + 1) hi"
        using \<open>lo < hi\<close> True by (subst bisect_left.simps) (simp add: mid_def Let_def)
      ultimately show ?thesis using m by simp
    next
      case False
      have "lo \<le> bisect_left a v lo mid \<and> bisect_left a v lo mid \<le> mid"
        using "1.IH"(2)[OF \<open>lo < hi\<close> mid_def False] m by simp
      moreover have "bisect_left a v lo hi = bisect_left a v lo mid"
        using \<open>lo < hi\<close> False by (subst bisect_left.simps) (simp add: mid_def Let_def)
      ultimately show ?thesis using m by simp
    qed
  qed
qed

text \<open>
  The bisection invariant on a sorted array: everything left of \<open>lo\<close> is below \<open>v\<close>,
  everything from \<open>hi\<close> on is not.  The result then splits the array the same way.
\<close>

lemma bisect_left_split:
  "sorted a \<Longrightarrow> lo \<le> hi \<Longrightarrow> hi \<le> length a \<Longrightarrow>
   (\<forall>i<lo. a ! i < v) \<Longrightarrow> (\<forall>i. hi \<le> i \<and> i < length a \<longrightarrow> v \<le> a ! i) \<Longrightarrow>
   (\<forall>i<bisect_left a v lo hi. a ! i < v) \<and>
   (\<forall>i. bisect_left a v lo hi \<le> i \<and> i < length a \<longrightarrow> v \<le> a ! i)"
proof (induction a v lo hi rule: bisect_left.induct)
  case (1 a v lo hi)
  show ?case
  proof (cases "lo < hi")
    case False
    then have "bisect_left a v lo hi = lo" by simp
    moreover have "lo = hi" using False "1.prems"(2) by simp
    ultimately show ?thesis using "1.prems" by simp
  next
    case True
    define mid where "mid = lo + (hi - lo) div 2"
    have m: "lo \<le> mid" "mid < hi" "mid < length a"
      using True "1.prems"(3) by (auto simp: mid_def)
    show ?thesis
    proof (cases "a ! mid < v")
      case lt: True
      have below: "\<forall>i<mid + 1. a ! i < v"
      proof (intro allI impI)
        fix i assume "i < mid + 1"
        then have "i \<le> mid" by simp
        then have "a ! i \<le> a ! mid"
          using \<open>sorted a\<close> m(3) by (simp add: sorted_nth_mono)
        with lt show "a ! i < v" by simp
      qed
      have eq: "bisect_left a v lo hi = bisect_left a v (mid + 1) hi"
        using True lt by (subst bisect_left.simps) (simp add: mid_def Let_def)
      show ?thesis
        unfolding eq
        using "1.IH"(1)[OF True mid_def lt \<open>sorted a\<close> _ "1.prems"(3) below "1.prems"(5)] m
        by simp
    next
      case ge: False
      have above: "\<forall>i. mid \<le> i \<and> i < length a \<longrightarrow> v \<le> a ! i"
      proof (intro allI impI)
        fix i assume "mid \<le> i \<and> i < length a"
        then have "a ! mid \<le> a ! i"
          using \<open>sorted a\<close> by (simp add: sorted_nth_mono)
        with ge show "v \<le> a ! i" by simp
      qed
      have eq: "bisect_left a v lo hi = bisect_left a v lo mid"
        using True ge by (subst bisect_left.simps) (simp add: mid_def Let_def)
      show ?thesis
        unfolding eq
        using "1.IH"(2)[OF True mid_def ge \<open>sorted a\<close> m(1) _ "1.prems"(4) above] m
        by simp
    qed
  qed
qed

lemma searchsorted1_split:
  assumes "sorted a"
  shows "\<forall>i<searchsorted1 a v. a ! i < v"
    and "\<forall>i. searchsorted1 a v \<le> i \<and> i < length a \<longrightarrow> v \<le> a ! i"
    and "searchsorted1 a v \<le> length a"
  using bisect_left_split[of a 0 "length a" v] bisect_left_bounds[of 0 "length a" a v] assms
  by (auto simp: searchsorted1_def)

lemma searchsorted1_member:
  assumes "sorted a" and "v \<in> set a"
  shows "searchsorted1 a v < length a \<and> a ! searchsorted1 a v = v"
proof -
  from assms(2) obtain j where j: "j < length a" "a ! j = v"
    by (auto simp: in_set_conv_nth)
  let ?p = "searchsorted1 a v"
  have "\<not> j < ?p" using searchsorted1_split(1)[OF assms(1), of v] j by auto
  then have p: "?p \<le> j" by simp
  then have plt: "?p < length a" using j by simp
  have "v \<le> a ! ?p" using searchsorted1_split(2)[OF assms(1), of v] plt by simp
  moreover have "a ! ?p \<le> a ! j" using sorted_nth_mono[OF assms(1) p j(1)] .
  ultimately show ?thesis using j plt by simp
qed

section \<open>Properties of one fit cycle and of the loop\<close>

lemma logPerBand_Inr:
  "logPerBand f bs vs i s = Inr s' \<Longrightarrow>
   s' = s\<lparr>trace := trace s @ map (\<lambda>(b, v). LogInfo (f b (v * 1000))) (zip bs (drop i vs))\<rparr>"
proof (induction bs arbitrary: i s)
  case Nil
  then show ?case by simp
next
  case (Cons b bs)
  from Cons.prems have lt: "i < length vs" by (auto split: if_splits)
  then have d: "drop i vs = vs ! i # drop (Suc i) vs" by (simp add: Cons_nth_drop_Suc)
  from Cons.prems lt
  have "logPerBand f bs vs (i + 1) (emit (LogInfo (f b (vs ! i * 1000))) s) = Inr s'" by simp
  from Cons.IH[OF this] show ?case by (simp add: emit_def d)
qed

lemma np_sub_same_length:
  "length a = length b \<Longrightarrow> np_sub a b = Inr (map2 (-) a b)"
  by (simp add: np_sub_def)

lemma np_alltrue_lt_map2:
  "length a = length b \<Longrightarrow>
   np_alltrue_lt (map2 (-) a b) c \<longleftrightarrow> (\<forall>i<length b. a ! i - b ! i < c)"
  by (auto simp: np_alltrue_lt_def list_all_length)

lemma bandLogs_proj [simp]:
  "engineCalls (bandLogs f bs vs) = []" "fitRuns (bandLogs f bs vs) = 0" "warnings (bandLogs f bs vs) = []"
  by (induction bs arbitrary: vs; case_tac vs; simp add: bandLogs_def engineCalls_def fitRuns_def warnings_def isLog_def)+

lemma proj_append [simp]:
  "engineCalls (a @ b) = engineCalls a @ engineCalls b"
  "fitRuns (a @ b) = fitRuns a + fitRuns b"
  "warnings (a @ b) = warnings a @ warnings b"
  by (simp_all add: engineCalls_def fitRuns_def warnings_def)

lemma proj_simps [simp]:
  "engineCalls [] = []" "fitRuns [] = 0" "warnings [] = []"
  "engineCalls (LogInfo m # tr) = engineCalls tr"
  "engineCalls (LogWarn m # tr) = engineCalls tr"
  "engineCalls (FitRun # tr) = FitRun # engineCalls tr"
  "engineCalls (ReloadStarMagnitudes a b # tr) = ReloadStarMagnitudes a b # engineCalls tr"
  "engineCalls (LoadStars c # tr) = LoadStars c # engineCalls tr"
  "engineCalls (BuildStars # tr) = BuildStars # engineCalls tr"
  "engineCalls (GetLookUpTable # tr) = GetLookUpTable # engineCalls tr"
  "engineCalls (GenerateOutputProducts # tr) = GenerateOutputProducts # engineCalls tr"
  "fitRuns (LogInfo m # tr) = fitRuns tr"
  "fitRuns (LogWarn m # tr) = fitRuns tr"
  "fitRuns (FitRun # tr) = Suc (fitRuns tr)"
  "fitRuns (ReloadStarMagnitudes a b # tr) = fitRuns tr"
  "fitRuns (LoadStars c # tr) = fitRuns tr"
  "fitRuns (BuildStars # tr) = fitRuns tr"
  "fitRuns (GetLookUpTable # tr) = fitRuns tr"
  "fitRuns (GenerateOutputProducts # tr) = fitRuns tr"
  "warnings (LogInfo m # tr) = warnings tr"
  "warnings (LogWarn m # tr) = m # warnings tr"
  "warnings (FitRun # tr) = warnings tr"
  "warnings (ReloadStarMagnitudes a b # tr) = warnings tr"
  "warnings (LoadStars c # tr) = warnings tr"
  "warnings (BuildStars # tr) = warnings tr"
  "warnings (GetLookUpTable # tr) = warnings tr"
  "warnings (GenerateOutputProducts # tr) = warnings tr"
  by (simp_all add: engineCalls_def fitRuns_def warnings_def isLog_def)

lemma logPerBand_Inr0:
  "logPerBand f bs vs 0 s = Inr s' \<Longrightarrow> s' = s\<lparr>trace := trace s @ bandLogs f bs vs\<rparr>"
  by (drule logPerBand_Inr) (simp add: bandLogs_def)

lemma reloadMagnitudes_Inr:
  assumes "reloadMagnitudes E cat obsIndex s = Inr s'"
  shows "\<exists>mags errs. column cat instMag obsIndex = Inr mags \<and>
           column cat instMagErr obsIndex = Inr errs \<and>
           s' = emit (ReloadStarMagnitudes mags errs)
                  (fgcmFitCycle_update
                     (fgcmStars_update (\<lambda>stars. reloadStarMagnitudes E stars mags errs)) s)"
  using assms
  by (auto simp: reloadMagnitudes_def bindR_def raisedAt_def column_def split: sum.splits)

lemma fitting_Inr:
  assumes "fitting E cat obsIndex s = Inr s'"
  shows "converged s' = converged s \<and> cycleNumber s' = cycleNumber s \<and>
         previousReservedRawRepeatability s' = previousReservedRawRepeatability s \<and>
         (\<exists>logs. engineCalls logs = [] \<and> warnings logs = [] \<and>
            (if cycleNumber s > 0 then
               \<exists>mags errs. column cat instMag obsIndex = Inr mags \<and>
                 column cat instMagErr obsIndex = Inr errs \<and>
                 trace s' = trace s @ [ReloadStarMagnitudes mags errs, FitRun] @ logs
             else trace s' = trace s @ [FitRun] @ logs))"
proof (cases "cycleNumber s > 0")
  case True
  with assms show ?thesis
    apply (simp add: fitting_def Let_def bindR_def split: sum.splits)
    apply (drule reloadMagnitudes_Inr)
    apply (drule logPerBand_Inr0)
    apply (clarsimp simp: emit_def)
    done
next
  case False
  with assms show ?thesis
    apply (simp add: fitting_def Let_def bindR_def split: sum.splits)
    apply (drule logPerBand_Inr0)
    apply (clarsimp simp: emit_def)
    done
qed



lemma checkingConvergence_Inr:
  assumes "checkingConvergence E cfg s = Inr s'"
  shows "cycleNumber s' = cycleNumber s + 1 \<and>
         fgcmPars (fgcmFitCycle s') = fgcmPars (fgcmFitCycle s) \<and>
         (\<exists>logs. engineCalls logs = [] \<and> warnings logs = [] \<and> trace s' = trace s @ logs)"
  using assms
  apply (simp add: checkingConvergence_def Let_def bindR_def raisedAt_def split: sum.splits if_splits)
   apply (clarsimp simp: emit_def)
  apply (drule logPerBand_Inr0)
  apply (clarsimp simp: emit_def)
  done

lemma oneFitCycle_Inr:
  assumes "oneFitCycle E cfg cat obsIndex s = Inr s'"
  shows "cycleNumber s' = cycleNumber s + 1 \<and>
         (\<exists>logs. engineCalls logs = [] \<and> warnings logs = [] \<and>
            (if cycleNumber s > 0 then
               \<exists>mags errs. column cat instMag obsIndex = Inr mags \<and>
                 column cat instMagErr obsIndex = Inr errs \<and>
                 trace s' = trace s @ [ReloadStarMagnitudes mags errs, FitRun] @ logs
             else trace s' = trace s @ [FitRun] @ logs))"
proof -
  from assms obtain s1 where f: "fitting E cat obsIndex s = Inr s1"
    and c: "checkingConvergence E cfg s1 = Inr s'"
    by (auto simp: oneFitCycle_def bindR_def split: sum.splits)
  from checkingConvergence_Inr[OF c] obtain l2 where
    c2: "cycleNumber s' = cycleNumber s1 + 1" "engineCalls l2 = []" "warnings l2 = []"
      "trace s' = trace s1 @ l2" by blast
  from fitting_Inr[OF f] obtain l1 where
    f2: "cycleNumber s1 = cycleNumber s" "engineCalls l1 = []" "warnings l1 = []"
     "if cycleNumber s > 0 then
               \<exists>mags errs. column cat instMag obsIndex = Inr mags \<and>
                 column cat instMagErr obsIndex = Inr errs \<and>
                 trace s1 = trace s @ [ReloadStarMagnitudes mags errs, FitRun] @ l1
             else trace s1 = trace s @ [FitRun] @ l1" by blast
  have "engineCalls (l1 @ l2) = []" "warnings (l1 @ l2) = []" using c2 f2 by simp_all
  moreover have "if cycleNumber s > 0 then
               \<exists>mags errs. column cat instMag obsIndex = Inr mags \<and>
                 column cat instMagErr obsIndex = Inr errs \<and>
                 trace s' = trace s @ [ReloadStarMagnitudes mags errs, FitRun] @ (l1 @ l2)
             else trace s' = trace s @ [FitRun] @ (l1 @ l2)"
    using f2(4) c2(4) by (auto split: if_splits)
  ultimately show ?thesis using c2(1) f2(1)
    by (intro conjI exI[of _ "l1 @ l2"]) simp_all
qed

lemma fitRuns_engineCalls: "fitRuns (engineCalls tr) = fitRuns tr"
  by (induction tr) (auto simp: fitRuns_def engineCalls_def isLog_def)

lemma no_engineCalls_fitRuns: "engineCalls tr = [] \<Longrightarrow> fitRuns tr = 0"
  using fitRuns_engineCalls[of tr] by simp

lemma oneFitCycle_fitRuns:
  "oneFitCycle E cfg cat obsIndex s = Inr s' \<Longrightarrow>
   fitRuns (trace s') = fitRuns (trace s) + 1 \<and> warnings (trace s') = warnings (trace s)"
  by (drule oneFitCycle_Inr) (auto split: if_splits dest: no_engineCalls_fitRuns)

lemma convergenceLoop_count:
  assumes "\<not> converged s"
      and "nat (maxFitCycles cfg - cycleNumber s) \<le> fuel"
      and "convergenceLoop E cfg cat obsIndex s = Inr s'"
  shows "warnings (trace s') = warnings (trace s) \<and>
         (case cyclesUntilConvergence fuel E cfg cat obsIndex s of
            Some k \<Rightarrow>
              fitRuns (trace s') =
                fitRuns (trace s) + min (nat (maxFitCycles cfg - cycleNumber s)) k \<and>
              (converged s' \<longleftrightarrow> k \<le> nat (maxFitCycles cfg - cycleNumber s))
          | None \<Rightarrow>
              fitRuns (trace s') = fitRuns (trace s) + nat (maxFitCycles cfg - cycleNumber s) \<and>
              \<not> converged s')"
  using assms
proof (induction fuel arbitrary: s)
  case 0
  then have "s' = s" by (subst (asm) convergenceLoop.simps) simp
  with 0 show ?case by simp
next
  case (Suc fuel)
  show ?case
  proof (cases "cycleNumber s < maxFitCycles cfg")
    case False
    then have "s' = s" using Suc.prems(3) by (subst (asm) convergenceLoop.simps) simp
    with False Suc.prems(1) show ?thesis
      by (auto split: sum.splits option.splits)
  next
    case True
    with Suc.prems obtain s1 where one: "oneFitCycle E cfg cat obsIndex s = Inr s1"
      and rest: "convergenceLoop E cfg cat obsIndex s1 = Inr s'"
      by (subst (asm) (2) convergenceLoop.simps) (auto split: sum.splits)
    note o = oneFitCycle_fitRuns[OF one] oneFitCycle_cycleNumber[OF one]
    show ?thesis
    proof (cases "converged s1")
      case c: True
      then have "s' = s1" using rest by (subst (asm) convergenceLoop.simps) simp
      with c one o True show ?thesis by simp
    next
      case c: False
      have "nat (maxFitCycles cfg - cycleNumber s1) \<le> fuel"
        using Suc.prems(2) o True by simp
      from Suc.IH[OF c this rest] one c o True show ?thesis
        by (auto split: option.splits)
    qed
  qed
qed

lemma logPerBand_returns:
  "length bs + i \<le> length vs \<Longrightarrow> \<exists>s'. logPerBand f bs vs i s = Inr s'"
  by (induction bs arbitrary: i s) auto

lemma reloadMagnitudes_returns:
  assumes "column cat instMag obsIndex = Inr mags"
      and "column cat instMagErr obsIndex = Inr errs"
  shows "reloadMagnitudes E cat obsIndex s =
           Inr (emit (ReloadStarMagnitudes mags errs)
                  (fgcmFitCycle_update
                     (fgcmStars_update (\<lambda>stars. reloadStarMagnitudes E stars mags errs)) s))"
  using assms by (simp add: reloadMagnitudes_def bindR_def raisedAt_def column_def)

lemma fitting_as_logPerBand:
  assumes "engineContract E n"
      and "column cat instMag obsIndex = Inr mags"
      and "column cat instMagErr obsIndex = Inr errs"
      and "wellShaped n (fgcmFitCycle s)"
  shows "\<exists>S FC. fitting E cat obsIndex s =
             logPerBand BandRepeatability (bands E (fgcmPars (run E (finishSetup E FC))))
               (compReservedRawRepeatability E (fgcmPars (run E (finishSetup E FC)))) 0 S \<and>
           fgcmFitCycle S = run E (finishSetup E FC) \<and> wellShaped n FC \<and>
           previousReservedRawRepeatability S = previousReservedRawRepeatability s"
proof (cases "0 < cycleNumber s")
  case True
  show ?thesis
    unfolding fitting_def Let_def
    apply (simp add: True reloadMagnitudes_returns[OF assms(2,3)] bindR_def emit_def)
    apply (intro exI conjI)
       apply (rule refl)
      apply simp
    using assms(4) apply (simp add: wellShaped_def)
    apply simp
    done
next
  case False
  show ?thesis
    unfolding fitting_def Let_def
    apply (simp add: False bindR_def emit_def)
    apply (intro exI conjI)
       apply (rule refl)
      apply simp
    using assms(4) apply (simp add: wellShaped_def)
    apply simp
    done
qed

lemma fitting_returns:
  assumes "engineContract E n"
      and "column cat instMag obsIndex = Inr mags"
      and "column cat instMagErr obsIndex = Inr errs"
      and "wellShaped n (fgcmFitCycle s)"
  shows "\<exists>s'. fitting E cat obsIndex s = Inr s' \<and> fitShaped E n (fgcmFitCycle s') \<and>
              previousReservedRawRepeatability s' = previousReservedRawRepeatability s"
proof -
  from fitting_as_logPerBand[OF assms] obtain S FC where
    f: "fitting E cat obsIndex s =
             logPerBand BandRepeatability (bands E (fgcmPars (run E (finishSetup E FC))))
               (compReservedRawRepeatability E (fgcmPars (run E (finishSetup E FC)))) 0 S"
    and S: "fgcmFitCycle S = run E (finishSetup E FC)" "wellShaped n FC"
      "previousReservedRawRepeatability S = previousReservedRawRepeatability s"
    by blast
  have sh: "fitShaped E n (run E (finishSetup E FC))"
    using assms(1) S(2) by (simp add: engineContract_def)
  then have "length (bands E (fgcmPars (run E (finishSetup E FC)))) + 0
      \<le> length (compReservedRawRepeatability E (fgcmPars (run E (finishSetup E FC))))"
    by (simp add: fitShaped_def)
  from logPerBand_returns[OF this] obtain s' where
    l: "logPerBand BandRepeatability (bands E (fgcmPars (run E (finishSetup E FC))))
               (compReservedRawRepeatability E (fgcmPars (run E (finishSetup E FC)))) 0 S = Inr s'"
    by blast
  from logPerBand_Inr0[OF l] S f l sh show ?thesis by simp
qed

lemma checkingConvergence_returns:
  assumes "fitShaped E n (fgcmFitCycle s)"
      and "length (previousReservedRawRepeatability s) = n"
  shows "\<exists>s'. checkingConvergence E cfg s = Inr s' \<and>
              length (previousReservedRawRepeatability s') = n \<and>
              wellShaped n (fgcmFitCycle s')"
proof -
  let ?fc = "fgcmFitCycle s"
  have c: "length (compReservedRawRepeatability E (fgcmPars ?fc)) = n"
    "length (updatedPhotometricCut ?fc) = n" "length (updatedHighCut ?fc) = n"
    "length (expGrayPhotometricCut (fgcmConfig ?fc)) = n"
    "length (expGrayHighCut (fgcmConfig ?fc)) = n"
    and b: "length (bands E (fgcmPars ?fc)) + 0 \<le> length (updatedPhotometricCut ?fc)"
    using assms(1) by (simp_all add: fitShaped_def wellShaped_def)
  show ?thesis
  proof (cases "np_alltrue_lt (map2 (-) (previousReservedRawRepeatability s)
                   (compReservedRawRepeatability E (fgcmPars ?fc)))
                (convergenceTolerance cfg)")
    case True
    then show ?thesis
      using assms(2) c
      by (simp add: checkingConvergence_def Let_def bindR_def raisedAt_def np_sub_def emit_def
            wellShaped_def)
  next
    case False
    obtain s1 where l: "logPerBand BandPhotometricityCut (bands E (fgcmPars ?fc))
                       (updatedPhotometricCut ?fc) 0
                       (emit (LogInfo SettingPhotometricityCuts)
                          ((fgcmFitCycle_update
                              (fgcmConfig_update (\<lambda>c. c\<lparr>expGrayPhotometricCut := updatedPhotometricCut ?fc,
                                   expGrayHighCut := updatedHighCut ?fc,
                                   precomputeSuperStarInitialCycle := False,
                                   freezeStdAtmosphere := False\<rparr>)) s)
                             \<lparr>previousReservedRawRepeatability := compReservedRawRepeatability E (fgcmPars ?fc)\<rparr>)) = Inr s1"
      using logPerBand_returns[OF b] by blast
    from logPerBand_Inr0[OF l] have "length (previousReservedRawRepeatability s1) = n"
      "wellShaped n (fgcmFitCycle s1)"
      using c by (simp_all add: emit_def wellShaped_def)
    with False l show ?thesis
      using assms(2) c
      by (simp add: checkingConvergence_def Let_def bindR_def raisedAt_def np_sub_def
            np_assign_def wellShaped_def)
  qed
qed

lemma oneFitCycle_returns:
  assumes "engineContract E n"
      and "column cat instMag obsIndex = Inr mags"
      and "column cat instMagErr obsIndex = Inr errs"
      and "wellShaped n (fgcmFitCycle s)"
      and "length (previousReservedRawRepeatability s) = n"
  shows "\<exists>s'. oneFitCycle E cfg cat obsIndex s = Inr s' \<and>
              wellShaped n (fgcmFitCycle s') \<and>
              length (previousReservedRawRepeatability s') = n"
proof -
  from fitting_returns[OF assms(1,2,3,4)] obtain s1 where
    f: "fitting E cat obsIndex s = Inr s1" "fitShaped E n (fgcmFitCycle s1)"
      "previousReservedRawRepeatability s1 = previousReservedRawRepeatability s"
    by blast
  from checkingConvergence_returns[OF f(2), where cfg=cfg] f(1,3) assms(5) show ?thesis
    by (auto simp: oneFitCycle_def bindR_def)
qed

lemma convergenceLoop_returns:
  assumes "engineContract E n"
      and "column cat instMag obsIndex = Inr mags"
      and "column cat instMagErr obsIndex = Inr errs"
      and "wellShaped n (fgcmFitCycle s)"
      and "length (previousReservedRawRepeatability s) = n"
  shows "\<exists>s'. convergenceLoop E cfg cat obsIndex s = Inr s' \<and> wellShaped n (fgcmFitCycle s')"
  using assms
proof (induction E cfg cat obsIndex s rule: convergenceLoop.induct)
  case (1 E cfg cat obsIndex s)
  show ?case
  proof (cases "\<not> converged s \<and> cycleNumber s < maxFitCycles cfg")
    case False
    then show ?thesis using "1.prems"(4) by (subst convergenceLoop.simps) auto
  next
    case True
    from oneFitCycle_returns[OF "1.prems", of cfg] obtain s1 where
      o: "oneFitCycle E cfg cat obsIndex s = Inr s1" "wellShaped n (fgcmFitCycle s1)"
      "length (previousReservedRawRepeatability s1) = n" by blast
    from "1.IH"[OF True o(1) "1.prems"(1,2,3) o(2,3)] True o(1) show ?thesis
      by (subst convergenceLoop.simps) simp
  qed
qed

lemma finalCleanup_returns:
  assumes "engineContract E n"
      and "column cat instMag obsIndex = Inr mags"
      and "column cat instMagErr obsIndex = Inr errs"
      and "wellShaped n (fgcmFitCycle s)"
  shows "\<exists>s'. finalCleanup E cfg cat obsIndex s = Inr s'"
proof -
  have "\<exists>S FC. finalCleanup E cfg cat obsIndex s =
             logPerBand BandRepeatability (bands E (fgcmPars (run E (finishSetup E FC))))
               (compReservedRawRepeatability E (fgcmPars (run E (finishSetup E FC)))) 0 S \<and>
             wellShaped n FC"
    unfolding finalCleanup_def Let_def
    apply (simp add: reloadMagnitudes_returns[OF assms(2,3)] bindR_def emit_def)
    apply (intro exI conjI)
     apply (rule refl)
    using assms(4) apply (simp add: wellShaped_def)
    done
  then obtain S FC where f: "finalCleanup E cfg cat obsIndex s =
             logPerBand BandRepeatability (bands E (fgcmPars (run E (finishSetup E FC))))
               (compReservedRawRepeatability E (fgcmPars (run E (finishSetup E FC)))) 0 S"
    and w: "wellShaped n FC"
    by blast
  have "fitShaped E n (run E (finishSetup E FC))"
    using assms(1) w by (simp add: engineContract_def)
  then have "length (bands E (fgcmPars (run E (finishSetup E FC)))) + 0
      \<le> length (compReservedRawRepeatability E (fgcmPars (run E (finishSetup E FC))))"
    by (simp add: fitShaped_def)
  from logPerBand_returns[OF this] f show ?thesis by simp
qed

lemma finalCleanup_Inr:
  assumes "finalCleanup E cfg cat obsIndex s = Inr s'"
  shows "\<exists>mags errs logs. column cat instMag obsIndex = Inr mags \<and>
           column cat instMagErr obsIndex = Inr errs \<and>
           engineCalls logs = [] \<and> warnings logs = [] \<and>
           trace s' = trace s @ [ReloadStarMagnitudes mags errs,
                                 LogInfo RunningFinalCleanup, FitRun] @ logs"
  using assms
  apply (simp add: finalCleanup_def Let_def bindR_def split: sum.splits)
  apply (drule reloadMagnitudes_Inr)
  apply (drule logPerBand_Inr0)
  apply (clarsimp simp: emit_def)
  done

lemma convergenceLoop_calls_later:
  assumes "convergenceLoop E cfg cat obsIndex s = Inr s'"
      and "column cat instMag obsIndex = Inr mags"
      and "column cat instMagErr obsIndex = Inr errs"
      and "0 < cycleNumber s"
  shows "cycleNumber s \<le> cycleNumber s' \<and>
         engineCalls (trace s') =
           engineCalls (trace s) @
           concat (replicate (nat (cycleNumber s' - cycleNumber s))
                     [ReloadStarMagnitudes mags errs, FitRun])"
  using assms
proof (induction E cfg cat obsIndex s rule: convergenceLoop.induct)
  case (1 E cfg cat obsIndex s)
  show ?case
  proof (cases "\<not> converged s \<and> cycleNumber s < maxFitCycles cfg")
    case False
    then have "s' = s" using "1.prems"(1) by (subst (asm) convergenceLoop.simps) auto
    then show ?thesis by simp
  next
    case True
    with "1.prems"(1) obtain s1 where one: "oneFitCycle E cfg cat obsIndex s = Inr s1"
      and rest: "convergenceLoop E cfg cat obsIndex s1 = Inr s'"
      by (subst (asm) convergenceLoop.simps) (auto split: sum.splits)
    from oneFitCycle_Inr[OF one] "1.prems"(2,3,4)
    have c1: "cycleNumber s1 = cycleNumber s + 1"
      and t1: "engineCalls (trace s1) =
                 engineCalls (trace s) @ [ReloadStarMagnitudes mags errs, FitRun]"
      by auto
    from "1.IH"[OF True one rest "1.prems"(2,3)] c1 "1.prems"(4)
    have le: "cycleNumber s1 \<le> cycleNumber s'"
      and t: "engineCalls (trace s') = engineCalls (trace s1) @
                concat (replicate (nat (cycleNumber s' - cycleNumber s1))
                     [ReloadStarMagnitudes mags errs, FitRun])"
      by auto
    have "nat (cycleNumber s' - cycleNumber s) = Suc (nat (cycleNumber s' - cycleNumber s1))"
      using le c1 by simp
    with t t1 le c1 show ?thesis by simp
  qed
qed

lemma convergenceLoop_calls:
  assumes "convergenceLoop E cfg cat obsIndex s = Inr s'"
      and "column cat instMag obsIndex = Inr mags"
      and "column cat instMagErr obsIndex = Inr errs"
      and "cycleNumber s = 0"
  shows "0 \<le> cycleNumber s' \<and>
         engineCalls (trace s') =
           engineCalls (trace s) @ cycleCalls mags errs (nat (cycleNumber s'))"
proof (cases "\<not> converged s \<and> cycleNumber s < maxFitCycles cfg")
  case False
  then have "s' = s" using assms(1) by (subst (asm) convergenceLoop.simps) auto
  then show ?thesis using assms(4) by (simp add: cycleCalls_def)
next
  case True
  with assms(1) obtain s1 where one: "oneFitCycle E cfg cat obsIndex s = Inr s1"
    and rest: "convergenceLoop E cfg cat obsIndex s1 = Inr s'"
    by (subst (asm) convergenceLoop.simps) (auto split: sum.splits)
  from oneFitCycle_Inr[OF one] assms(4)
  have c1: "cycleNumber s1 = 1"
    and t1: "engineCalls (trace s1) = engineCalls (trace s) @ [FitRun]"
    by auto
  from convergenceLoop_calls_later[OF rest assms(2,3)] c1
  have le: "1 \<le> cycleNumber s'"
    and t: "engineCalls (trace s') = engineCalls (trace s1) @
              concat (replicate (nat (cycleNumber s' - 1))
                   [ReloadStarMagnitudes mags errs, FitRun])"
    by auto
  have "nat (cycleNumber s') = Suc (nat (cycleNumber s' - 1))" using le by simp
  with t t1 le show ?thesis by (simp add: cycleCalls_def)
qed

lemma convergenceLoop_cycles:
  assumes "convergenceLoop E cfg cat obsIndex s = Inr s'"
  shows "cycleNumber s \<le> cycleNumber s' \<and>
         fitRuns (trace s') = fitRuns (trace s) + nat (cycleNumber s' - cycleNumber s)"
  using assms
proof (induction E cfg cat obsIndex s rule: convergenceLoop.induct)
  case (1 E cfg cat obsIndex s)
  show ?case
  proof (cases "\<not> converged s \<and> cycleNumber s < maxFitCycles cfg")
    case False
    then have "s' = s" using "1.prems"(1) by (subst (asm) convergenceLoop.simps) auto
    then show ?thesis by simp
  next
    case True
    with "1.prems"(1) obtain s1 where one: "oneFitCycle E cfg cat obsIndex s = Inr s1"
      and rest: "convergenceLoop E cfg cat obsIndex s1 = Inr s'"
      by (subst (asm) convergenceLoop.simps) (auto split: sum.splits)
    from "1.IH"[OF True one rest] oneFitCycle_fitRuns[OF one] oneFitCycle_cycleNumber[OF one]
    show ?thesis by auto
  qed
qed

lemma loadStarColumns_Inr:
  assumes "loadStarColumns inp conv = Inr (obsIndex, visitIndex, cols)"
  shows "obsIndex = starIndicesObsIndex inp \<and>
         matchObservationsToVisits (expInfoVISIT inp) (map visit (fgcmStarObservationCat inp))
           (starIndicesObsIndex inp) = Inr (obsIndex, visitIndex) \<and>
         column (fgcmStarObservationCat inp) instMag obsIndex = Inr (obsMag cols) \<and>
         column (fgcmStarObservationCat inp) instMagErr obsIndex = Inr (obsMagErr cols) \<and>
         column (fgcmStarObservationCat inp) visit obsIndex = Inr (obsVisit cols) \<and>
         np_take (expInfoFILTERNAME inp) (map int visitIndex) = Inr (obsFilterName cols)"
  using assms
  by (auto simp: loadStarColumns_def Let_def bindE_def matchObservationsToVisits_def
      split: sum.splits)

section \<open>Properties of a whole run\<close>

lemma runDataRef_unfold:
  assumes "lookUpTableExists inp" and "doReferenceMatches cfg"
      and "np_index (dataRefs inp) 0 = Inr tract"
      and "degreesPerRadian (fgcmStarObservationCat inp) = Inr conv"
      and "loadStarColumns inp conv = Inr (obsIndex, visitIndex, cols)"
  shows "runDataRef E cfg inp =
           bindR (convergenceLoop E cfg (fgcmStarObservationCat inp) obsIndex
                    (initialCycleState E tract cols)) (\<lambda>s1.
           bindR (finalCleanup E cfg (fgcmStarObservationCat inp) obsIndex
                    (warnIfNotConverged s1)) (\<lambda>s2.
             Inr (emit GenerateOutputProducts s2)))"
  using assms by (auto simp: runDataRef_def bindR_def raisedAt_def Let_def split: sum.splits)

lemma runDataRef_Inr:
  assumes "runDataRef E cfg inp = Inr s"
  shows "\<exists>tract conv obsIndex visitIndex cols.
           lookUpTableExists inp \<and> doReferenceMatches cfg \<and>
           np_index (dataRefs inp) 0 = Inr tract \<and>
           degreesPerRadian (fgcmStarObservationCat inp) = Inr conv \<and>
           loadStarColumns inp conv = Inr (obsIndex, visitIndex, cols)"
  using assms
  by (auto simp: runDataRef_def bindR_def raisedAt_def Let_def split: if_splits sum.splits)

lemma initialCycleState_simps:
  "cycleNumber (initialCycleState E tract cols) = 0"
  "\<not> converged (initialCycleState E tract cols)"
  "trace (initialCycleState E tract cols) =
     [LogInfo (RunningOnTract tract), BuildStars, GetLookUpTable, LoadStars cols]"
  "previousReservedRawRepeatability (initialCycleState E tract cols) =
     replicate (nBands E (newParsWithArrays E (fgcmConfig (newFitCycle E)))) 1000"
  "fgcmConfig (fgcmFitCycle (initialCycleState E tract cols)) = fgcmConfig (newFitCycle E)"
  by (simp_all add: initialCycleState_def Let_def np_zeros_plus_def)

lemma warnIfNotConverged_simps:
  "fgcmFitCycle (warnIfNotConverged s) = fgcmFitCycle s"
  "trace (warnIfNotConverged s) =
     trace s @ (if converged s then [] else [LogWarn (MaxFitCyclesExceeded (cycleNumber s))])"
  by (simp_all add: warnIfNotConverged_def emit_def)

lemma runDataRef_trace:
  assumes "lookUpTableExists inp" and "doReferenceMatches cfg"
      and "np_index (dataRefs inp) 0 = Inr tract"
      and "degreesPerRadian (fgcmStarObservationCat inp) = Inr conv"
      and "loadStarColumns inp conv = Inr (obsIndex, visitIndex, cols)"
      and "runDataRef E cfg inp = Inr s"
  shows "\<exists>s1. convergenceLoop E cfg (fgcmStarObservationCat inp) obsIndex
                 (initialCycleState E tract cols) = Inr s1 \<and>
           fitRuns (trace s) = fitRuns (trace s1) + 1 \<and>
           warnings (trace s) =
             warnings (trace s1) @
             (if converged s1 then [] else [MaxFitCyclesExceeded (cycleNumber s1)]) \<and>
           engineCalls (trace s) =
             engineCalls (trace s1) @
             [ReloadStarMagnitudes (obsMag cols) (obsMagErr cols), FitRun,
              GenerateOutputProducts]"
proof -
  let ?cat = "fgcmStarObservationCat inp"
  from assms(6) runDataRef_unfold[OF assms(1-5), of E]
  obtain s1 s2 where
    l: "convergenceLoop E cfg ?cat obsIndex (initialCycleState E tract cols) = Inr s1"
    and f: "finalCleanup E cfg ?cat obsIndex (warnIfNotConverged s1) = Inr s2"
    and s: "s = emit GenerateOutputProducts s2"
    by (auto simp: bindR_def split: sum.splits)
  from loadStarColumns_Inr[OF assms(5)]
  have m: "column ?cat instMag obsIndex = Inr (obsMag cols)"
    and e: "column ?cat instMagErr obsIndex = Inr (obsMagErr cols)" by blast+
  from finalCleanup_Inr[OF f] m e obtain logs where
    "engineCalls logs = []" "warnings logs = []"
    "trace s2 = trace (warnIfNotConverged s1) @
        [ReloadStarMagnitudes (obsMag cols) (obsMagErr cols),
         LogInfo RunningFinalCleanup, FitRun] @ logs"
    by auto
  then show ?thesis
    using l s by (simp add: emit_def warnIfNotConverged_simps no_engineCalls_fitRuns)
qed

lemma runDataRef_returns:
  assumes "lookUpTableExists inp" and "doReferenceMatches cfg"
      and "np_index (dataRefs inp) 0 = Inr tract"
      and "degreesPerRadian (fgcmStarObservationCat inp) = Inr conv"
      and "loadStarColumns inp conv = Inr (obsIndex, visitIndex, cols)"
      and "engineContract E n"
  shows "\<exists>s. runDataRef E cfg inp = Inr s"
proof -
  let ?cat = "fgcmStarObservationCat inp"
  let ?s0 = "initialCycleState E tract cols"
  from loadStarColumns_Inr[OF assms(5)]
  have m: "column ?cat instMag obsIndex = Inr (obsMag cols)"
    and e: "column ?cat instMagErr obsIndex = Inr (obsMagErr cols)" by blast+
  have w: "wellShaped n (fgcmFitCycle ?s0)"
    using assms(6) by (simp add: engineContract_def wellShaped_def initialCycleState_simps)
  have p: "length (previousReservedRawRepeatability ?s0) = n"
    using assms(6) by (simp add: engineContract_def initialCycleState_simps)
  from convergenceLoop_returns[OF assms(6) m e w p, where cfg=cfg] obtain s1 where
    l: "convergenceLoop E cfg ?cat obsIndex ?s0 = Inr s1" and w1: "wellShaped n (fgcmFitCycle s1)"
    by blast
  have "wellShaped n (fgcmFitCycle (warnIfNotConverged s1))"
    using w1 by (simp add: warnIfNotConverged_simps)
  from finalCleanup_returns[OF assms(6) m e this, where cfg=cfg] obtain s2 where
    "finalCleanup E cfg ?cat obsIndex (warnIfNotConverged s1) = Inr s2" by blast
  with l show ?thesis
    by (simp add: runDataRef_unfold[OF assms(1-5)] bindR_def)
qed

section \<open>Claims about the index translation\<close>

text \<open>
  Claim C3, as the code has it.  The selection \<open>obsIndex\<close> is read from the star matching
  and passed on as it is: in the order the star matching gave it, which need not be the
  order of the observation table, and with no test that a selected visit is in the visit
  list.  For a strictly ascending visit list and a selection whose entries index the
  observation table, \<open>visitIndex\<close> is found by bisection of the visit list, the observation
  table being only read; it has the length of \<open>obsIndex\<close>, and its \<open>k\<close>-th entry belongs to
  the \<open>k\<close>-th selected observation.  That entry splits the visit list: the visits before it
  are smaller than the observation's visit, the visits from it on are not.  It is
  the position of the observation's visit exactly when that visit is in the list.
\<close>

theorem matchObservationsToVisits_parallel:
  assumes "sorted_wrt (<) VISIT"
      and "np_take visits obsIndex = Inr sel"
  shows "\<exists>visitIndex.
           matchObservationsToVisits VISIT visits obsIndex = Inr (obsIndex, visitIndex) \<and>
           length visitIndex = length obsIndex \<and>
           visitIndex = map (\<lambda>v. bisect_left VISIT v 0 (length VISIT)) sel \<and>
           (\<forall>k<length obsIndex.
              np_index visits (obsIndex ! k) = Inr (sel ! k) \<and>
              visitIndex ! k \<le> length VISIT \<and>
              (\<forall>j<visitIndex ! k. VISIT ! j < sel ! k) \<and>
              (\<forall>j. visitIndex ! k \<le> j \<and> j < length VISIT \<longrightarrow> sel ! k \<le> VISIT ! j) \<and>
              (sel ! k \<in> set VISIT \<longleftrightarrow>
                 visitIndex ! k < length VISIT \<and> VISIT ! (visitIndex ! k) = sel ! k))"
proof -
  have srt: "sorted VISIT"
    using assms(1) by (rule strict_sorted_imp_sorted)
  have len: "length sel = length obsIndex"
    using assms(2) by (rule np_take_length)
  let ?vi = "searchsorted VISIT sel"
  have m: "matchObservationsToVisits VISIT visits obsIndex = Inr (obsIndex, ?vi)"
    using assms(2) by (simp add: matchObservationsToVisits_def)
  have nth: "?vi ! k = searchsorted1 VISIT (sel ! k)" if "k < length obsIndex" for k
    using that len by (simp add: searchsorted_def)
  have entry:
    "np_index visits (obsIndex ! k) = Inr (sel ! k) \<and>
     ?vi ! k \<le> length VISIT \<and>
     (\<forall>j<?vi ! k. VISIT ! j < sel ! k) \<and>
     (\<forall>j. ?vi ! k \<le> j \<and> j < length VISIT \<longrightarrow> sel ! k \<le> VISIT ! j) \<and>
     (sel ! k \<in> set VISIT \<longleftrightarrow> ?vi ! k < length VISIT \<and> VISIT ! (?vi ! k) = sel ! k)"
    if k: "k < length obsIndex" for k
  proof -
    have "sel ! k \<in> set VISIT \<longleftrightarrow>
            searchsorted1 VISIT (sel ! k) < length VISIT \<and>
            VISIT ! searchsorted1 VISIT (sel ! k) = sel ! k"
      using searchsorted1_member[OF srt, of "sel ! k"]
      by (metis nth_mem)
    then show ?thesis
      unfolding nth[OF k]
      using np_take_nth[OF assms(2) k] searchsorted1_split[OF srt, of "sel ! k"]
      by blast
  qed
  have "length ?vi = length obsIndex \<and>
        ?vi = map (\<lambda>v. bisect_left VISIT v 0 (length VISIT)) sel"
    using len by (simp add: searchsorted_def searchsorted1_def)
  with m entry show ?thesis by blast
qed

text \<open>
  The visit list \<open>[10, 20, 30]\<close> and the observation visits \<open>[30, 5, 20, 10, 99]\<close>, of which
  rows 0, 2 and 3 are selected: the positions are \<open>[2, 1, 0]\<close>, in the order of the rows.
\<close>

theorem matchObservationsToVisits_parallel_witness:
  "sorted_wrt (<) [10, 20, 30 :: int] \<and>
   np_take [30, 5, 20, 10, 99 :: int] [0, 2, 3] = Inr [30, 20, 10] \<and>
   matchObservationsToVisits [10, 20, 30] [30, 5, 20, 10, 99] [0, 2, 3]
     = Inr ([0, 2, 3], [2, 1, 0])"
proof -
  have h1: "sorted_wrt (<) [10, 20, 30 :: int]" by simp
  have h2: "np_take [30, 5, 20, 10, 99 :: int] [0, 2, 3] = Inr [30, 20, 10]"
    by (simp add: np_index_def)
  from matchObservationsToVisits_parallel[OF h1 h2]
  obtain visitIndex where
    "matchObservationsToVisits [10, 20, 30] [30, 5, 20, 10, 99] [0, 2, 3]
       = Inr ([0, 2, 3], visitIndex)"
    and "visitIndex = map (\<lambda>v. bisect_left [10, 20, 30] v 0 (length [10, 20, 30 :: int]))
                        [30, 20, 10]"
    by blast
  then have "matchObservationsToVisits [10, 20, 30] [30, 5, 20, 10, 99] [0, 2, 3]
       = Inr ([0, 2, 3], [2, 1, 0])"
    by simp
  with h1 h2 show ?thesis by blast
qed

text \<open>
  The claim as stated has the translator choose the observations: those of the visits in
  the list, in the order of the observation table.  The code chooses nothing.  With the
  visit list \<open>[10, 20, 30]\<close> and the observation visits \<open>[30, 5, 20, 10, 99]\<close>, the selection
  \<open>[3, 0, 2]\<close> comes back as \<open>[3, 0, 2]\<close>, row 3 ahead of row 0; and the selection of all
  five rows comes back whole, with position 0 for visit 5, where the list holds visit 10,
  and position 3 for visit 99, past the end of the list.
\<close>

theorem selection_passed_as_given_counterexample:
  "matchObservationsToVisits [10, 20, 30] [30, 5, 20, 10, 99] [3, 0, 2]
     = Inr ([3, 0, 2], [0, 2, 1]) \<and>
   \<not> sorted [3, 0, 2 :: int] \<and>
   matchObservationsToVisits [10, 20, 30] [30, 5, 20, 10, 99] [0, 1, 2, 3, 4]
     = Inr ([0, 1, 2, 3, 4], [2, 0, 1, 0, 3]) \<and>
   [30, 5, 20, 10, 99 :: int] ! 1 = 5 \<and> [10, 20, 30 :: int] ! 0 = 10 \<and>
   length [10, 20, 30 :: int] = 3"
  by (simp add: matchObservationsToVisits_def np_index_def searchsorted_def searchsorted1_def)

section \<open>The concrete run, evaluated\<close>

lemmas example_defs =
  oneFitCycle_def fitting_def checkingConvergence_def Let_def bindR_def raisedAt_def
  initialCycleState_def exampleEngine_def exampleFitCycle_def exampleConfig_def emit_def
  np_sub_def np_assign_def np_alltrue_lt_def np_zeros_plus_def reloadMagnitudes_def column_def
  np_index_def exampleInputs_def exampleObservation_def exampleColumns_def

lemma example_contract: "engineContract (exampleEngine reps) 2"
  by (simp add: engineContract_def exampleEngine_def exampleFitCycle_def wellShaped_def
        fitShaped_def)

lemma example_conv: "degreesPerRadian (fgcmStarObservationCat exampleInputs) = Inr (180 / pi)"
  by (simp add: degreesPerRadian_def exampleInputs_def exampleObservation_def)

lemma example_columns:
  "loadStarColumns exampleInputs (180 / pi) = Inr ([0, 2, 3], [2, 1, 0], exampleColumns)"
  by (simp add: loadStarColumns_def exampleInputs_def exampleObservation_def bindE_def
        matchObservationsToVisits_def searchsorted_def searchsorted1_def np_index_def
        column_def exampleColumns_def)

lemma example_never:
  "cyclesUntilConvergence 5 (exampleEngine neverConverging) exampleConfig
     (fgcmStarObservationCat exampleInputs) [0, 2, 3]
     (initialCycleState (exampleEngine neverConverging) 9813 exampleColumns) = None"
  by (simp add: example_defs neverConverging_def numeral_eq_Suc)

lemma example_two:
  "cyclesUntilConvergence 5 (exampleEngine convergingAfterTwo) exampleConfig
     (fgcmStarObservationCat exampleInputs) [0, 2, 3]
     (initialCycleState (exampleEngine convergingAfterTwo) 9813 exampleColumns) = Some 2"
  by (simp add: example_defs convergingAfterTwo_def numeral_eq_Suc)

lemma example_inputs:
  "lookUpTableExists exampleInputs" "doReferenceMatches exampleConfig"
  "np_index (dataRefs exampleInputs) 0 = Inr 9813"
  "0 \<le> maxFitCycles exampleConfig" "nat (maxFitCycles exampleConfig) \<le> 5"
  "maxFitCycles exampleConfig = 5"
  by (simp_all add: exampleInputs_def exampleConfig_def np_index_def)

lemma checkingConvergence_verdict:
  assumes "checkingConvergence E cfg s = Inr s'"
  shows "\<exists>delta. np_sub (previousReservedRawRepeatability s)
                   (compReservedRawRepeatability E (fgcmPars (fgcmFitCycle s))) = Inr delta \<and>
           converged s' = (converged s \<or> np_alltrue_lt delta (convergenceTolerance cfg))"
  using assms
  apply (simp add: checkingConvergence_def Let_def bindR_def raisedAt_def
      split: sum.splits if_splits)
   apply (clarsimp simp: emit_def)
  apply (drule logPerBand_Inr0)
  apply (clarsimp simp: emit_def)
  done

lemma np_sub_sentinel:
  assumes "np_sub (replicate n c) current = Inr delta"
      and "0 < n" and "current \<noteq> []"
      and "\<forall>r\<in>set current. r + tol \<le> c"
  shows "\<not> np_alltrue_lt delta tol"
proof -
  obtain r rs where cur: "current = r # rs" using assms(3) by (cases current) auto
  obtain m where n: "n = Suc m" using assms(2) by (cases n) auto
  have r: "r + tol \<le> c" using assms(4) cur by simp
  have "delta \<noteq> [] \<and> hd delta = c - r"
    using assms(1) unfolding np_sub_def cur n
    by (auto split: if_splits)
  then obtain ds where "delta = (c - r) # ds" by (cases delta) auto
  with r show ?thesis by (simp add: np_alltrue_lt_def)
qed

lemma runDataRef_fit_count:
  assumes "lookUpTableExists inp" and "doReferenceMatches cfg"
      and "np_index (dataRefs inp) 0 = Inr tract"
      and "degreesPerRadian (fgcmStarObservationCat inp) = Inr conv"
      and "loadStarColumns inp conv = Inr (obsIndex, visitIndex, cols)"
      and "engineContract E n"
      and "0 \<le> maxFitCycles cfg"
      and "nat (maxFitCycles cfg) \<le> fuel"
  shows "\<exists>s1 s.
           convergenceLoop E cfg (fgcmStarObservationCat inp) obsIndex
             (initialCycleState E tract cols) = Inr s1 \<and>
           runDataRef E cfg inp = Inr s \<and>
           int (fitRuns (trace s1)) \<le> maxFitCycles cfg \<and>
           fitRuns (trace s) = fitRuns (trace s1) + 1 \<and>
           (case cyclesUntilConvergence fuel E cfg (fgcmStarObservationCat inp) obsIndex
                   (initialCycleState E tract cols) of
              Some k \<Rightarrow>
                fitRuns (trace s) = min (nat (maxFitCycles cfg)) k + 1 \<and>
                warnings (trace s) =
                  (if k \<le> nat (maxFitCycles cfg) then []
                   else [MaxFitCyclesExceeded (maxFitCycles cfg)])
            | None \<Rightarrow>
                fitRuns (trace s) = nat (maxFitCycles cfg) + 1 \<and>
                warnings (trace s) = [MaxFitCyclesExceeded (maxFitCycles cfg)])"
proof -
  let ?cat = "fgcmStarObservationCat inp"
  let ?s0 = "initialCycleState E tract cols"
  from runDataRef_returns[OF assms(1-6)] obtain s where
    r: "runDataRef E cfg inp = Inr s" by blast
  from runDataRef_trace[OF assms(1-5) r] obtain s1 where
    l: "convergenceLoop E cfg ?cat obsIndex ?s0 = Inr s1"
    and f: "fitRuns (trace s) = fitRuns (trace s1) + 1"
    and w: "warnings (trace s) = warnings (trace s1) @
             (if converged s1 then [] else [MaxFitCyclesExceeded (cycleNumber s1)])"
    by blast
  have d: "nat (maxFitCycles cfg - cycleNumber ?s0) = nat (maxFitCycles cfg)"
    by (simp add: initialCycleState_simps)
  have t0: "fitRuns (trace ?s0) = 0" "warnings (trace ?s0) = []"
    by (simp_all add: initialCycleState_simps)
  from convergenceLoop_cycles[OF l]
  have c1: "cycleNumber s1 = int (fitRuns (trace s1))"
    by (simp add: initialCycleState_simps t0)
  have cnt: "warnings (trace s1) = [] \<and>
         (case cyclesUntilConvergence fuel E cfg ?cat obsIndex ?s0 of
            Some k \<Rightarrow>
              fitRuns (trace s1) = min (nat (maxFitCycles cfg)) k \<and>
              (converged s1 \<longleftrightarrow> k \<le> nat (maxFitCycles cfg))
          | None \<Rightarrow>
              fitRuns (trace s1) = nat (maxFitCycles cfg) \<and> \<not> converged s1)"
    using convergenceLoop_count[OF initialCycleState_simps(2) _ l, of fuel] assms(8)
    unfolding d t0 by (auto split: option.splits)
  have le: "int (fitRuns (trace s1)) \<le> maxFitCycles cfg"
    using cnt assms(7) by (auto split: option.splits)
  have "(case cyclesUntilConvergence fuel E cfg ?cat obsIndex ?s0 of
              Some k \<Rightarrow>
                fitRuns (trace s) = min (nat (maxFitCycles cfg)) k + 1 \<and>
                warnings (trace s) =
                  (if k \<le> nat (maxFitCycles cfg) then []
                   else [MaxFitCyclesExceeded (maxFitCycles cfg)])
            | None \<Rightarrow>
                fitRuns (trace s) = nat (maxFitCycles cfg) + 1 \<and>
                warnings (trace s) = [MaxFitCyclesExceeded (maxFitCycles cfg)])"
    using cnt f w c1 assms(7) by (auto split: option.splits)
  with l r le f show ?thesis by blast
qed

section \<open>Claims about the convergence loop\<close>

text \<open>
  Claim C1.  In the convergence check of a cycle, with one previous and one current raw
  repeatability per band, the task declares convergence exactly when every band satisfies
  \<open>previous - current < convergenceTolerance\<close>, a comparison of the signed difference; and
  the previous repeatability is overwritten with the current one only when the check
  fails.
\<close>

theorem checkingConvergence_signed_delta:
  assumes "checkingConvergence E cfg s = Inr s'"
      and "current = compReservedRawRepeatability E (fgcmPars (fgcmFitCycle s))"
      and "length (previousReservedRawRepeatability s) = length current"
      and "\<not> converged s"
  shows "(converged s' \<longleftrightarrow>
            (\<forall>band<length current.
               previousReservedRawRepeatability s ! band - current ! band
                 < convergenceTolerance cfg)) \<and>
         previousReservedRawRepeatability s' =
            (if converged s' then previousReservedRawRepeatability s else current)"
proof (cases "np_alltrue_lt (map2 (-) (previousReservedRawRepeatability s) current)
                (convergenceTolerance cfg)")
  case True
  with assms(1,2,3) have "s' = (emit (LogInfo (ConvergedAfterCycle (cycleNumber s))) s)
      \<lparr>converged := True, cycleNumber := cycleNumber s + 1\<rparr>"
    by (auto simp: checkingConvergence_def Let_def bindR_def raisedAt_def np_sub_def emit_def)
  then have "converged s'" "previousReservedRawRepeatability s' = previousReservedRawRepeatability s"
    by (simp_all add: emit_def)
  with True assms(3) show ?thesis by (simp add: np_alltrue_lt_map2)
next
  case False
  with assms(1,2,3) have "\<not> converged s'" "previousReservedRawRepeatability s' = current"
    using assms(4)
    by (auto simp: checkingConvergence_def Let_def bindR_def raisedAt_def np_sub_def np_assign_def emit_def
        split: sum.splits if_splits dest!: logPerBand_Inr)
  with False assms(3) show ?thesis by (simp add: np_alltrue_lt_map2)
qed

text \<open>
  A cycle in which both bands got worse, by 0.0001 and 0.0005: the signed differences are
  below the tolerance 0.005, the check declares convergence and keeps the previous
  values.
\<close>

theorem checkingConvergence_signed_delta_witness:
  "\<exists>s'. checkingConvergence (exampleEngine slightlyWorse) exampleConfig
          ((initialCycleState (exampleEngine slightlyWorse) 9813 exampleColumns)
             \<lparr>previousReservedRawRepeatability := [0.0200, 0.0180]\<rparr>) = Inr s' \<and>
        compReservedRawRepeatability (exampleEngine slightlyWorse) 0 = [0.0201, 0.0185] \<and>
        converged s' \<and>
        previousReservedRawRepeatability s' = [0.0200, 0.0180]"
proof -
  let ?E = "exampleEngine slightlyWorse"
  let ?s = "(initialCycleState ?E 9813 exampleColumns)
             \<lparr>previousReservedRawRepeatability := [0.0200, 0.0180]\<rparr>"
  have cur: "compReservedRawRepeatability ?E (fgcmPars (fgcmFitCycle ?s)) = [0.0201, 0.0185]"
    by (simp add: example_defs slightlyWorse_def)
  have "\<exists>s'. checkingConvergence ?E exampleConfig ?s = Inr s'"
    by (simp add: example_defs slightlyWorse_def)
  then obtain s' where c: "checkingConvergence ?E exampleConfig ?s = Inr s'" by blast
  have n: "\<not> converged ?s" by (simp add: initialCycleState_simps)
  have l: "length (previousReservedRawRepeatability ?s) = length [0.0201, 0.0185 :: real]"
    by simp
  from checkingConvergence_signed_delta[OF c cur[symmetric] l n]
  have "converged s'" "previousReservedRawRepeatability s' = [0.0200, 0.0180]"
    by (simp_all add: exampleConfig_def numeral_2_eq_2 All_less_Suc)
  moreover have "compReservedRawRepeatability ?E 0 = [0.0201, 0.0185]"
    by (simp add: exampleEngine_def slightlyWorse_def)
  ultimately show ?thesis using c by blast
qed

text \<open>
  Claim C2.  For a run whose inputs are in place and whose engine keeps its shapes, with
  \<open>maxFitCycles \<ge> 0\<close>: the run returns; the loop invokes the fit at most \<open>maxFitCycles\<close>
  times and the final clean-up invokes it exactly once more; the total is
  \<open>min maxFitCycles cyclesUntilConvergence + 1\<close>, where a search that finds no convergence
  within \<open>fuel \<ge> maxFitCycles\<close> cycles counts as no convergence; and when the loop ends
  without convergence the run logs one warning and goes on to the clean-up.
\<close>

theorem fit_invocations_bounded:
  assumes "lookUpTableExists inp" and "doReferenceMatches cfg"
      and "np_index (dataRefs inp) 0 = Inr tract"
      and "degreesPerRadian (fgcmStarObservationCat inp) = Inr conv"
      and "loadStarColumns inp conv = Inr (obsIndex, visitIndex, cols)"
      and "engineContract E n"
      and "0 \<le> maxFitCycles cfg"
      and "nat (maxFitCycles cfg) \<le> fuel"
  shows "\<exists>s1 s.
           convergenceLoop E cfg (fgcmStarObservationCat inp) obsIndex
             (initialCycleState E tract cols) = Inr s1 \<and>
           runDataRef E cfg inp = Inr s \<and>
           int (fitRuns (trace s1)) \<le> maxFitCycles cfg \<and>
           fitRuns (trace s) = fitRuns (trace s1) + 1 \<and>
           (case cyclesUntilConvergence fuel E cfg (fgcmStarObservationCat inp) obsIndex
                   (initialCycleState E tract cols) of
              Some k \<Rightarrow>
                fitRuns (trace s) = min (nat (maxFitCycles cfg)) k + 1 \<and>
                warnings (trace s) =
                  (if k \<le> nat (maxFitCycles cfg) then []
                   else [MaxFitCyclesExceeded (maxFitCycles cfg)])
            | None \<Rightarrow>
                fitRuns (trace s) = nat (maxFitCycles cfg) + 1 \<and>
                warnings (trace s) = [MaxFitCyclesExceeded (maxFitCycles cfg)])"
  using assms by (rule runDataRef_fit_count)

text \<open>
  With \<open>maxFitCycles = 5\<close>: an engine that never converges is fitted 6 times and the run
  warns; an engine that converges in its second cycle is fitted 3 times, without warning.
\<close>

theorem fit_invocations_bounded_witness:
  "maxFitCycles exampleConfig = 5 \<and>
   (\<exists>s. runDataRef (exampleEngine neverConverging) exampleConfig exampleInputs = Inr s \<and>
        fitRuns (trace s) = 6 \<and> warnings (trace s) = [MaxFitCyclesExceeded 5]) \<and>
   (\<exists>s. runDataRef (exampleEngine convergingAfterTwo) exampleConfig exampleInputs = Inr s \<and>
        fitRuns (trace s) = 3 \<and> warnings (trace s) = [])"
proof -
  have a: "\<exists>s. runDataRef (exampleEngine neverConverging) exampleConfig exampleInputs = Inr s \<and>
        fitRuns (trace s) = 6 \<and> warnings (trace s) = [MaxFitCyclesExceeded 5]"
    using fit_invocations_bounded[OF example_inputs(1,2,3) example_conv example_columns
        example_contract example_inputs(4,5), of neverConverging]
    by (auto simp: example_never example_inputs(6))
  have b: "\<exists>s. runDataRef (exampleEngine convergingAfterTwo) exampleConfig exampleInputs = Inr s \<and>
        fitRuns (trace s) = 3 \<and> warnings (trace s) = []"
    using fit_invocations_bounded[OF example_inputs(1,2,3) example_conv example_columns
        example_contract example_inputs(4,5), of convergingAfterTwo]
    by (auto simp: example_two example_inputs(6))
  from a b example_inputs(6) show ?thesis by blast
qed

text \<open>
  Claim C4.  Before cycle 0 the previous repeatability is 1000 in every band.  When the
  run has at least one band and every repeatability that cycle 0 ends with is at least
  the tolerance below 1000, cycle 0 does not declare convergence.
\<close>

theorem sentinel_blocks_first_cycle:
  assumes "oneFitCycle E cfg cat obsIndex (initialCycleState E tract cols) = Inr s'"
      and "result = compReservedRawRepeatability E (fgcmPars (fgcmFitCycle s'))"
      and "0 < nBands E (newParsWithArrays E (fgcmConfig (newFitCycle E)))"
      and "result \<noteq> []"
      and "\<forall>r\<in>set result. r + convergenceTolerance cfg \<le> 1000"
  shows "previousReservedRawRepeatability (initialCycleState E tract cols) =
           replicate (nBands E (newParsWithArrays E (fgcmConfig (newFitCycle E)))) 1000 \<and>
         \<not> converged s'"
proof -
  let ?s0 = "initialCycleState E tract cols"
  from assms(1) obtain s1 where f: "fitting E cat obsIndex ?s0 = Inr s1"
    and c: "checkingConvergence E cfg s1 = Inr s'"
    by (auto simp: oneFitCycle_def bindR_def split: sum.splits)
  from fitting_Inr[OF f]
  have p1: "previousReservedRawRepeatability s1 =
              replicate (nBands E (newParsWithArrays E (fgcmConfig (newFitCycle E)))) 1000"
    and n1: "\<not> converged s1"
    by (simp_all add: initialCycleState_simps)
  from checkingConvergence_Inr[OF c] assms(2)
  have res: "result = compReservedRawRepeatability E (fgcmPars (fgcmFitCycle s1))" by simp
  from checkingConvergence_verdict[OF c] obtain delta where
    d: "np_sub (previousReservedRawRepeatability s1) result = Inr delta"
    and v: "converged s' = (converged s1 \<or> np_alltrue_lt delta (convergenceTolerance cfg))"
    unfolding res by blast
  from np_sub_sentinel[OF d[unfolded p1] assms(3,4,5)] v n1
  show ?thesis by (simp add: initialCycleState_simps)
qed

text \<open>Cycle 0 ends with \<open>(0.0200, 0.0180)\<close>: not converged, and these become the previous values.\<close>

theorem sentinel_blocks_first_cycle_witness:
  "\<exists>s'. oneFitCycle (exampleEngine convergingAfterTwo) exampleConfig
          (fgcmStarObservationCat exampleInputs) [0, 2, 3]
          (initialCycleState (exampleEngine convergingAfterTwo) 9813 exampleColumns) = Inr s' \<and>
        compReservedRawRepeatability (exampleEngine convergingAfterTwo)
          (fgcmPars (fgcmFitCycle s')) = [0.0200, 0.0180] \<and>
        \<not> converged s' \<and>
        previousReservedRawRepeatability s' = [0.0200, 0.0180]"
proof -
  let ?E = "exampleEngine convergingAfterTwo"
  have "\<exists>s'. oneFitCycle ?E exampleConfig (fgcmStarObservationCat exampleInputs)
      [0, 2, 3] (initialCycleState ?E 9813 exampleColumns) = Inr s' \<and>
    compReservedRawRepeatability ?E (fgcmPars (fgcmFitCycle s')) = [0.0200, 0.0180] \<and>
    previousReservedRawRepeatability s' = [0.0200, 0.0180]"
    by (simp add: example_defs convergingAfterTwo_def numeral_2_eq_2)
  then obtain s' where o: "oneFitCycle ?E exampleConfig (fgcmStarObservationCat exampleInputs)
      [0, 2, 3] (initialCycleState ?E 9813 exampleColumns) = Inr s'"
    and res: "compReservedRawRepeatability ?E (fgcmPars (fgcmFitCycle s')) = [0.0200, 0.0180]"
    and prev: "previousReservedRawRepeatability s' = [0.0200, 0.0180]"
    by blast
  have b: "0 < nBands ?E (newParsWithArrays ?E (fgcmConfig (newFitCycle ?E)))"
    by (simp add: exampleEngine_def)
  have ne: "[0.0200, 0.0180 :: real] \<noteq> []" by simp
  have far: "\<forall>r\<in>set [0.0200, 0.0180 :: real]. r + convergenceTolerance exampleConfig \<le> 1000"
    by (simp add: exampleConfig_def)
  from sentinel_blocks_first_cycle[OF o res[symmetric] b ne far]
  have "\<not> converged s'" by simp
  with o res prev show ?thesis by blast
qed

text \<open>
  Claim C5.  When the look-up table is absent, or reference matching is switched off, the
  run raises a RuntimeError before anything else happens: no collaborator is called, no
  fit is run and nothing is output.
\<close>

theorem missing_precondition_raises:
  assumes "\<not> lookUpTableExists inp \<or> \<not> doReferenceMatches cfg"
  shows "runDataRef E cfg inp =
           Inl (RuntimeError
                  (if \<not> lookUpTableExists inp
                   then ''Must run FgcmCalibrateTract with an fgcmLookUpTable''
                   else ''Must run FgcmCalibrateTract with fgcmBuildStars.doReferenceMatches''),
                [])"
  using assms by (auto simp: runDataRef_def)

theorem missing_precondition_raises_witness:
  "runDataRef (exampleEngine neverConverging) exampleConfig
     (exampleInputs\<lparr>lookUpTableExists := False\<rparr>) =
     Inl (RuntimeError ''Must run FgcmCalibrateTract with an fgcmLookUpTable'', []) \<and>
   runDataRef (exampleEngine neverConverging) (exampleConfig\<lparr>doReferenceMatches := False\<rparr>)
     exampleInputs =
     Inl (RuntimeError ''Must run FgcmCalibrateTract with fgcmBuildStars.doReferenceMatches'', [])"
proof -
  have a: "\<not> lookUpTableExists (exampleInputs\<lparr>lookUpTableExists := False\<rparr>) \<or>
           \<not> doReferenceMatches exampleConfig" by simp
  have b: "\<not> lookUpTableExists exampleInputs \<or>
           \<not> doReferenceMatches (exampleConfig\<lparr>doReferenceMatches := False\<rparr>)" by simp
  from missing_precondition_raises[OF a, of "exampleEngine neverConverging"]
       missing_precondition_raises[OF b, of "exampleEngine neverConverging"]
  show ?thesis by (simp add: exampleInputs_def)
qed

text \<open>
  Claim C8.  In a run that returns, the index arrays are computed once, before the loop,
  from the selection \<open>obsIndex\<close> of the star matching, and the star object is built once
  from them.  From then on the only calls that touch the star data between fits refresh
  the instrumental magnitudes and errors, always with the same rows \<open>obsIndex\<close> of the
  original observation table: once before every fit of the loop except the first, and
  once before the final clean-up fit.
\<close>

theorem star_indices_fixed:
  assumes "runDataRef E cfg inp = Inr s"
  shows "\<exists>conv visitIndex cols mags errs n.
           degreesPerRadian (fgcmStarObservationCat inp) = Inr conv \<and>
           loadStarColumns inp conv = Inr (starIndicesObsIndex inp, visitIndex, cols) \<and>
           column (fgcmStarObservationCat inp) instMag (starIndicesObsIndex inp) = Inr mags \<and>
           column (fgcmStarObservationCat inp) instMagErr (starIndicesObsIndex inp) = Inr errs \<and>
           fitRuns (trace s) = n + 1 \<and>
           engineCalls (trace s) =
             [BuildStars, GetLookUpTable, LoadStars cols] @ cycleCalls mags errs n @
             [ReloadStarMagnitudes mags errs, FitRun, GenerateOutputProducts]"
proof -
  let ?cat = "fgcmStarObservationCat inp"
  from runDataRef_Inr[OF assms] obtain tract conv obsIndex visitIndex cols where
    h: "lookUpTableExists inp" "doReferenceMatches cfg"
      "np_index (dataRefs inp) 0 = Inr tract"
      "degreesPerRadian ?cat = Inr conv"
      "loadStarColumns inp conv = Inr (obsIndex, visitIndex, cols)"
    by blast
  from loadStarColumns_Inr[OF h(5)]
  have oi: "obsIndex = starIndicesObsIndex inp"
    and m: "column ?cat instMag obsIndex = Inr (obsMag cols)"
    and e: "column ?cat instMagErr obsIndex = Inr (obsMagErr cols)" by blast+
  from runDataRef_trace[OF h assms] obtain s1 where
    l: "convergenceLoop E cfg ?cat obsIndex (initialCycleState E tract cols) = Inr s1"
    and f: "fitRuns (trace s) = fitRuns (trace s1) + 1"
    and c: "engineCalls (trace s) = engineCalls (trace s1) @
             [ReloadStarMagnitudes (obsMag cols) (obsMagErr cols), FitRun,
              GenerateOutputProducts]"
    by blast
  from convergenceLoop_calls[OF l m e initialCycleState_simps(1)]
  have c1: "engineCalls (trace s1) =
      [BuildStars, GetLookUpTable, LoadStars cols] @
      cycleCalls (obsMag cols) (obsMagErr cols) (nat (cycleNumber s1))"
    by (simp add: initialCycleState_simps)
  from convergenceLoop_cycles[OF l]
  have "fitRuns (trace s1) = nat (cycleNumber s1)"
    by (simp add: initialCycleState_simps)
  with f c c1 h(4,5) m e oi show ?thesis by auto
qed

text \<open>A run of three fits: one load of the stars, then a refresh before the second and the third fit.\<close>

theorem star_indices_fixed_witness:
  "\<exists>s. runDataRef (exampleEngine convergingAfterTwo) exampleConfig exampleInputs = Inr s \<and>
       engineCalls (trace s) =
         [BuildStars, GetLookUpTable, LoadStars exampleColumns,
          FitRun,
          ReloadStarMagnitudes [21, 23, 24] [0.01, 0.01, 0.01], FitRun,
          ReloadStarMagnitudes [21, 23, 24] [0.01, 0.01, 0.01], FitRun,
          GenerateOutputProducts]"
proof -
  from runDataRef_fit_count[OF example_inputs(1,2,3) example_conv example_columns
        example_contract example_inputs(4,5), of convergingAfterTwo]
  obtain s where r: "runDataRef (exampleEngine convergingAfterTwo) exampleConfig exampleInputs = Inr s"
    and f: "fitRuns (trace s) = 3"
    by (auto simp: example_two example_inputs(6))
  from star_indices_fixed[OF r] obtain conv visitIndex cols mags errs n where
    c: "degreesPerRadian (fgcmStarObservationCat exampleInputs) = Inr conv"
      "loadStarColumns exampleInputs conv = Inr (starIndicesObsIndex exampleInputs, visitIndex, cols)"
      "column (fgcmStarObservationCat exampleInputs) instMag (starIndicesObsIndex exampleInputs) = Inr mags"
      "column (fgcmStarObservationCat exampleInputs) instMagErr (starIndicesObsIndex exampleInputs) = Inr errs"
      "fitRuns (trace s) = n + 1"
      "engineCalls (trace s) =
             [BuildStars, GetLookUpTable, LoadStars cols] @ cycleCalls mags errs n @
             [ReloadStarMagnitudes mags errs, FitRun, GenerateOutputProducts]"
    by blast
  from c(1) have conv: "conv = 180 / pi" by (simp add: example_conv)
  from c(2) have cols: "cols = exampleColumns" by (simp add: conv example_columns)
  from c(3) have mags: "mags = [21, 23, 24]"
    by (simp add: column_def exampleInputs_def exampleObservation_def np_index_def)
  from c(4) have errs: "errs = [0.01, 0.01, 0.01]"
    by (simp add: column_def exampleInputs_def exampleObservation_def np_index_def)
  from c(5) f have n: "n = 2" by simp
  from c(6) have "engineCalls (trace s) =
         [BuildStars, GetLookUpTable, LoadStars exampleColumns,
          FitRun,
          ReloadStarMagnitudes [21, 23, 24] [0.01, 0.01, 0.01], FitRun,
          ReloadStarMagnitudes [21, 23, 24] [0.01, 0.01, 0.01], FitRun,
          GenerateOutputProducts]"
    unfolding cols mags errs n by (simp add: cycleCalls_def numeral_2_eq_2)
  with r show ?thesis by blast
qed

section \<open>Properties of the LUT builder\<close>

lemma config_has_field:
  assumes "isMakeLutConfig config" and "k \<in> set FgcmMakeLutConfig_fields"
  shows "\<exists>v. map_of config k = Some v"
proof -
  have "k \<in> fst ` set config" using assms by (simp add: isMakeLutConfig_def flip: set_map)
  then show ?thesis by (cases "map_of config k") (auto simp: map_of_eq_None_iff)
qed

lemma config_lacks_p3Std:
  assumes "isMakeLutConfig config"
  shows "getattr config ''p3Std'' = Inl (AttributeError ''p3Std'')"
proof -
  have "''p3Std'' \<notin> fst ` set config"
    using assms by (simp add: isMakeLutConfig_def FgcmMakeLutConfig_fields_def flip: set_map)
  then have "map_of config ''p3Std'' = None" by (simp add: map_of_eq_None_iff)
  then show ?thesis by (simp add: getattr_def)
qed

lemma assignLines_stops:
  assumes "\<forall>(k, r)\<in>set pre. \<exists>v. evalRhs config r = Inr v"
      and "evalRhs config r0 = Inl e"
  shows "assignLines config (pre @ (k0, r0) # post) d = Inl e"
  using assms
proof (induction pre arbitrary: d)
  case Nil
  then show ?case by (simp add: bindE_def)
next
  case (Cons a pre)
  obtain k r where a: "a = (k, r)" by (cases a)
  with Cons.prems obtain v where "evalRhs config r = Inr v" by auto
  with Cons a show ?case by (simp add: bindE_def)
qed

lemma makeLutConfig_raises:
  assumes "isMakeLutConfig config"
  shows "makeLutConfig config nCcd = Inl (AttributeError ''p3Std'')"
proof -
  let ?pre = "take 17 (lutConfigLines nCcd)"
  let ?post = "drop 18 (lutConfigLines nCcd)"
  have split: "lutConfigLines nCcd = ?pre @ (''o3Std'', ConfigAttr ''p3Std'') # ?post"
    by (simp add: lutConfigLines_def)
  have ok: "\<exists>v. evalRhs config (ConfigAttr k) = Inr v"
    if "k \<in> set FgcmMakeLutConfig_fields" for k
    using config_has_field[OF assms that] by (auto simp: evalRhs_def getattr_def)
  have pre: "\<forall>(k, r)\<in>set ?pre. \<exists>v. evalRhs config r = Inr v"
    by (simp add: lutConfigLines_def ok FgcmMakeLutConfig_fields_def) (simp add: evalRhs_def)
  have bad: "evalRhs config (ConfigAttr ''p3Std'') = Inl (AttributeError ''p3Std'')"
    using config_lacks_p3Std[OF assms] by (simp add: evalRhs_def)
  show ?thesis
    unfolding makeLutConfig_def
    by (subst split) (rule assignLines_stops[OF pre bad])
qed

lemma bandLoop_unbound:
  "bandLoop E (functionScope camera lutConfig lam) camera (band # rest) i d
     = Inl (NameError ''throughputLambda'')"
  by (simp add: bindE_def nameLookup_def bandScope_def functionScope_def dictSet_def)

lemma detectorLoop_unbound:
  "detectorLoop E (bandScope (functionScope camera lutConfig lam) i b) (detector # rest) k tDict
     = Inl (NameError ''band'')"
  by (simp add: bindE_def nameLookup_def bandScope_def functionScope_def dictSet_def
        detectorScope_def)

section \<open>Claims about the LUT builder\<close>




text \<open>
  Claim C9.  The claim has a run that builds the table end in one write of one complete
  record.  The put is the last statement of \<^verbatim>\<open>_fgcmMakeLut\<close>, and no run of the task
  reaches it: for every configuration of the task the butler is left as it was.  Where a
  table is stored the run returns and nothing is written, as the claim says; where none is
  stored the run ends in an exception, and there is still no table afterwards.
\<close>

theorem lut_never_persisted:
  assumes "isMakeLutConfig config"
  shows "snd (makeLutRun E config b) = b \<and>
         (datasetExists b ''fgcmLookUpTable'' \<longrightarrow> makeLutRun E config b = (None, b)) \<and>
         (\<not> datasetExists b ''fgcmLut'' \<and> \<not> datasetExists b ''fgcmLookUpTable'' \<longrightarrow>
            (\<exists>e. makeLutRun E config b = (Some e, b)) \<and>
            \<not> datasetExists (snd (makeLutRun E config b)) ''fgcmLookUpTable'')"
proof -
  have c: "\<exists>e. makeLutCatalog E config b = Inl e"
    by (cases "butlerCamera b")
       (simp_all add: makeLutCatalog_def getCamera_def bindE_def makeLutConfig_raises[OF assms])
  then obtain e where e: "makeLutCatalog E config b = Inl e" by blast
  have r: "makeLutRun E config b =
             (if \<not> datasetExists b ''fgcmLut'' \<and> \<not> datasetExists b ''fgcmLookUpTable''
              then (Some e, b) else (None, b))"
    by (simp add: makeLutRun_def fgcmMakeLut_def e)
  show ?thesis unfolding r by simp
qed

text \<open>
  A configuration of the task with the default axes, a camera of two detectors and no
  stored table: the run raises the AttributeError of \<^verbatim>\<open>self.config.p3Std\<close>, and the
  butler holds no look-up table afterwards.
\<close>

theorem lut_never_persisted_witness:
  "isMakeLutConfig (exampleLutConfig 5 770 790) \<and>
   \<not> datasetExists (exampleButler False) ''fgcmLut'' \<and>
   \<not> datasetExists (exampleButler False) ''fgcmLookUpTable'' \<and>
   makeLutRun exampleLutEngine (exampleLutConfig 5 770 790) (exampleButler False)
     = (Some (AttributeError ''p3Std''), exampleButler False) \<and>
   \<not> datasetExists
       (snd (makeLutRun exampleLutEngine (exampleLutConfig 5 770 790) (exampleButler False)))
       ''fgcmLookUpTable''"
proof -
  have c: "isMakeLutConfig (exampleLutConfig 5 770 790)"
    by (simp add: isMakeLutConfig_def exampleLutConfig_def FgcmMakeLutConfig_fields_def)
  have d1: "\<not> datasetExists (exampleButler False) ''fgcmLut''"
    by (simp add: datasetExists_def exampleButler_def)
  have d2: "\<not> datasetExists (exampleButler False) ''fgcmLookUpTable''"
    by (simp add: datasetExists_def exampleButler_def)
  have cam: "butlerCamera (exampleButler False)
               = Some [PyObject ''Detector0'', PyObject ''Detector1'']"
    by (simp add: exampleButler_def)
  have cat: "makeLutCatalog exampleLutEngine (exampleLutConfig 5 770 790) (exampleButler False)
               = Inl (AttributeError ''p3Std'')"
    by (simp add: makeLutCatalog_def getCamera_def bindE_def cam makeLutConfig_raises[OF c])
  from lut_never_persisted[OF c, of exampleLutEngine "exampleButler False"] d1 d2
  obtain e where
    r: "makeLutRun exampleLutEngine (exampleLutConfig 5 770 790) (exampleButler False)
          = (Some e, exampleButler False)"
    and n: "\<not> datasetExists
               (snd (makeLutRun exampleLutEngine (exampleLutConfig 5 770 790)
                      (exampleButler False)))
               ''fgcmLookUpTable''"
    by blast
  have "e = AttributeError ''p3Std''"
    using r d1 d2 by (simp add: makeLutRun_def fgcmMakeLut_def cat)
  with r n c d1 d2 show ?thesis by simp
qed

text \<open>
  Claim C10.  For every configuration of the task, when the look-up table does not yet
  exist the build raises and leaves the butler as it was; once the camera is there, the
  exception is the AttributeError of \<^verbatim>\<open>self.config.p3Std\<close>.  Further down, the body of
  the loop over the bands reads the unbound name \<^verbatim>\<open>throughputLambda\<close> and the body of
  the loop over the detectors reads the unbound name \<^verbatim>\<open>band\<close>: each raises NameError
  on its first pass.
\<close>

theorem lut_build_always_raises:
  assumes "isMakeLutConfig config" and "\<not> datasetExists b ''fgcmLookUpTable''"
  shows "(\<exists>e. fgcmMakeLut E config b = (Some e, b)) \<and>
         (butlerCamera b \<noteq> None \<longrightarrow>
            fgcmMakeLut E config b = (Some (AttributeError ''p3Std''), b)) \<and>
         (\<forall>camera lutConfig lam band rest.
            bandLoop E (functionScope camera lutConfig lam) camera (band # rest) 0 []
              = Inl (NameError ''throughputLambda'')) \<and>
         (\<forall>camera lutConfig lam i b detector rest tDict.
            detectorLoop E (bandScope (functionScope camera lutConfig lam) i b)
              (detector # rest) 0 tDict = Inl (NameError ''band''))"
proof -
  have c: "makeLutCatalog E config b =
             (case butlerCamera b of None \<Rightarrow> Inl (NoResults ''camera'')
              | Some camera \<Rightarrow> Inl (AttributeError ''p3Std''))"
    by (simp add: makeLutCatalog_def getCamera_def bindE_def makeLutConfig_raises[OF assms(1)]
          split: option.splits)
  have "\<exists>e. fgcmMakeLut E config b = (Some e, b)"
    using assms(2) by (simp add: fgcmMakeLut_def c split: option.splits)
  moreover have "butlerCamera b \<noteq> None \<longrightarrow>
            fgcmMakeLut E config b = (Some (AttributeError ''p3Std''), b)"
    using assms(2) by (auto simp: fgcmMakeLut_def c)
  ultimately show ?thesis
    by (intro conjI allI) (assumption | rule bandLoop_unbound detectorLoop_unbound)+
qed

theorem lut_build_always_raises_witness:
  "isMakeLutConfig (exampleLutConfig 5 770 790) \<and>
   \<not> datasetExists (exampleButler False) ''fgcmLookUpTable'' \<and>
   makeLutRun exampleLutEngine (exampleLutConfig 5 770 790) (exampleButler False)
     = (Some (AttributeError ''p3Std''), exampleButler False)"
proof -
  have a: "isMakeLutConfig (exampleLutConfig 5 770 790)"
    by (simp add: isMakeLutConfig_def exampleLutConfig_def FgcmMakeLutConfig_fields_def)
  have b: "\<not> datasetExists (exampleButler False) ''fgcmLookUpTable''"
    by (simp add: datasetExists_def exampleButler_def)
  have c: "butlerCamera (exampleButler False) \<noteq> None" by (simp add: exampleButler_def)
  have d: "\<not> datasetExists (exampleButler False) ''fgcmLut''"
    by (simp add: datasetExists_def exampleButler_def)
  from lut_build_always_raises[OF a b, of exampleLutEngine] c
  have "fgcmMakeLut exampleLutEngine (exampleLutConfig 5 770 790) (exampleButler False)
     = (Some (AttributeError ''p3Std''), exampleButler False)" by blast
  with a b d show ?thesis by (simp add: makeLutRun_def)
qed

section \<open>Properties of the reference catalog loader\<close>

lemma fluxFieldOf_fails:
  "lookupFails L cfg filterName \<Longrightarrow> fluxFieldOf L cfg results filterName = Inr None"
  unfolding lookupFails_def fluxFieldOf_def
  by (auto split: option.splits sum.splits) (metis Inl_Inr_False sum.inject(1))+

lemma retrieveFluxFields_fields:
  "retrieveFluxFields L cfg results filters st = (None, st') \<Longrightarrow>
   fluxFilters st' = fluxFilters st \<and>
   (\<exists>fields. fluxFields st' = fluxFields st @ fields \<and> length fields = length filters \<and>
      (\<forall>j<length filters. fluxFieldOf L cfg results (filters ! j) = Inr (fields ! j)))"
proof (induction filters arbitrary: st)
  case Nil
  then show ?case by simp
next
  case (Cons f filters)
  from Cons.prems obtain ff where ff: "fluxFieldOf L cfg results f = Inr ff"
    and rest: "retrieveFluxFields L cfg results filters
            (st\<lparr>fluxFields := fluxFields st @ [ff],
                warned := (if ff = None then warned st @ [f] else warned st)\<rparr>) = (None, st')"
    by (auto split: sum.splits)
  from Cons.IH[OF rest] obtain fields where
    f: "fluxFilters st' = fluxFilters st" "fluxFields st' = (fluxFields st @ [ff]) @ fields"
      "length fields = length filters"
      "\<forall>j<length filters. fluxFieldOf L cfg results (filters ! j) = Inr (fields ! j)"
    by auto
  have "\<forall>j<length (f # filters).
          fluxFieldOf L cfg results ((f # filters) ! j) = Inr ((ff # fields) ! j)"
    using ff f(4) by (auto simp: nth_Cons split: nat.splits)
  with f show ?case by (intro conjI exI[of _ "ff # fields"]) simp_all
qed

lemma findReferenceFilter_fluxFilters:
  "findReferenceFilter L cfg filters st = (r, st') \<Longrightarrow>
   fluxFilters st' = fluxFilters st \<and> fluxFields st' = fluxFields st"
  by (induction filters arbitrary: st) (auto split: option.splits sum.splits if_splits)

lemma determine_flux_fields_None:
  assumes "determine_flux_fields L cfg filterList st = (None, st')"
      and "i < length filterList" and "lookupFails L cfg (filterList ! i)"
  shows "fluxFilters st' = Some filterList \<and> length (fluxFields st') = length filterList \<and>
         fluxFields st' ! i = None"
proof -
  from assms(1) obtain results st1 where
    find: "findReferenceFilter L cfg filterList (st\<lparr>fluxFilters := Some filterList\<rparr>)
             = (Inr (Some results), st1)"
    and retr: "retrieveFluxFields L cfg results filterList (st1\<lparr>fluxFields := []\<rparr>) = (None, st')"
    by (auto simp: determine_flux_fields_def split: prod.splits sum.splits option.splits)
  from findReferenceFilter_fluxFilters[OF find] have "fluxFilters st1 = Some filterList" by simp
  with retrieveFluxFields_fields[OF retr] obtain fields where
    f: "fluxFilters st' = Some filterList" "fluxFields st' = fields"
      "length fields = length filterList"
      "\<forall>j<length filterList. fluxFieldOf L cfg results (filterList ! j) = Inr (fields ! j)"
    by auto
  from f(4) assms(2) fluxFieldOf_fails[OF assms(3), of results] have "fields ! i = None" by auto
  with f show ?thesis by simp
qed

lemma setGood_sentinel:
  "sentinelAt i rows \<Longrightarrow> i \<noteq> j \<Longrightarrow> sentinelAt i (setGood j ok a b vals rows)"
  unfolding sentinelAt_def setGood_def list_all_iff
  by (auto dest!: set_zip_leftD)

lemma colorTermPass_sentinel:
  assumes "colorTermPass L refCat selected name j band cat = Inr cat'"
      and "sentinelAt i (refMag cat)" and "sentinelAt i (refMagErr cat)"
      and "i \<noteq> j \<or> snd band = None"
  shows "sentinelAt i (refMag cat') \<and> sentinelAt i (refMagErr cat')"
proof (cases "snd band")
  case None
  with assms show ?thesis by (simp add: colorTermPass_def)
next
  case (Some fld)
  with assms(4) have ne: "i \<noteq> j" by simp
  from assms(1) Some obtain mags errs where
    "cat' = cat\<lparr>refMag :=
                   setGood j (\<lambda>m e. m < 90 \<and> e < 90 \<and> e > 0) mags errs mags (refMag cat),
                 refMagErr :=
                   setGood j (\<lambda>m e. m < 90 \<and> e < 90 \<and> e > 0) mags errs errs (refMagErr cat)\<rparr>"
    by (auto simp: colorTermPass_def bindE_def split: sum.splits)
  with assms(2,3) ne show ?thesis by (simp add: setGood_sentinel)
qed

lemma forBands_sentinel:
  "forBands (colorTermPass L refCat selected name) bandList k cat = Inr cat' \<Longrightarrow>
   sentinelAt i (refMag cat) \<Longrightarrow> sentinelAt i (refMagErr cat) \<Longrightarrow>
   \<forall>j<length bandList. k + j = i \<longrightarrow> snd (bandList ! j) = None \<Longrightarrow>
   sentinelAt i (refMag cat') \<and> sentinelAt i (refMagErr cat')"
proof (induction bandList arbitrary: k cat)
  case Nil
  then show ?case by simp
next
  case (Cons band rest)
  from Cons.prems(1) obtain cat1 where
    p: "colorTermPass L refCat selected name k band cat = Inr cat1"
    and r: "forBands (colorTermPass L refCat selected name) rest (k + 1) cat1 = Inr cat'"
    by (auto simp: bindE_def split: sum.splits)
  have "i \<noteq> k \<or> snd band = None" using Cons.prems(4) by auto
  from colorTermPass_sentinel[OF p Cons.prems(2,3) this]
  have s1: "sentinelAt i (refMag cat1)" "sentinelAt i (refMagErr cat1)" by simp_all
  have "\<forall>j<length rest. k + 1 + j = i \<longrightarrow> snd (rest ! j) = None"
  proof (intro allI impI)
    fix j assume "j < length rest" "k + 1 + j = i"
    then have "Suc j < length (band # rest)" "k + Suc j = i" by simp_all
    with Cons.prems(4) have "snd ((band # rest) ! Suc j) = None" by blast
    then show "snd (rest ! j) = None" by simp
  qed
  from Cons.IH[OF r s1 this] show ?case .
qed

lemma sentinel_replicate: "i < n \<Longrightarrow> sentinelAt i (replicate m (replicate n 99))"
  by (simp add: sentinelAt_def list_all_iff)

lemma referenceMagnitudes_sentinel:
  assumes "referenceMagnitudes L cfg radius filterList st = Inr cat"
      and "applyColorTerms cfg"
      and "fluxFilters st = Some filterList"
      and "length (fluxFields st) = length filterList"
      and "i < length filterList" and "fluxFields st ! i = None"
  shows "sentinelAt i (refMag cat) \<and> sentinelAt i (refMagErr cat)"
proof -
  from assms(1) obtain refCat where
    l: "loadSkyCircle L radius (referenceFilter st) = Inr refCat"
    unfolding referenceMagnitudes_def
    by (cases "loadSkyCircle L radius (referenceFilter st)") (auto simp: bindE_def)
  let ?sel = "selectSources L refCat"
  let ?n = "length (filter id ?sel)"
  show ?thesis
  proof (cases "?n = 0")
    case True
    with assms(1) l have "cat = \<lparr>refRa = [], refDec = [], refMag = [], refMagErr = []\<rparr>"
      by (simp add: referenceMagnitudes_def bindE_def Let_def)
    then show ?thesis by (simp add: sentinelAt_def)
  next
    case False
    from assms(1) l False obtain conv where
      c: "refDegreesPerRadian refCat = Inr conv"
      unfolding referenceMagnitudes_def
      by (cases "refDegreesPerRadian refCat") (auto simp: bindE_def Let_def)
    from assms(1) l False c obtain ras where
      r: "maskSelect (coord_ra refCat) ?sel = Inr ras"
      unfolding referenceMagnitudes_def
      by (cases "maskSelect (coord_ra refCat) ?sel") (auto simp: bindE_def Let_def)
    from assms(1) l False c r obtain decs where
      d: "maskSelect (coord_dec refCat) ?sel = Inr decs"
      unfolding referenceMagnitudes_def
      by (cases "maskSelect (coord_dec refCat) ?sel") (auto simp: bindE_def Let_def)
    let ?cat0 = "\<lparr>refRa = map (\<lambda>r. r * conv) ras,
                     refDec = map (\<lambda>d. d * conv) decs,
                     refMag = replicate ?n (replicate (length filterList) 99),
                     refMagErr = replicate ?n (replicate (length filterList) 99)\<rparr>"
    from assms(1,2,3) l False c r d obtain name where
      f: "forBands (colorTermPass L refCat ?sel name) (zip filterList (fluxFields st)) 0 ?cat0
            = Inr cat"
      by (auto simp: referenceMagnitudes_def bindE_def Let_def zipBands_def
            split: option.splits)
    have s0: "sentinelAt i (refMag ?cat0)" "sentinelAt i (refMagErr ?cat0)"
      using assms(5) by (simp_all add: sentinel_replicate)
    have "\<forall>j<length (zip filterList (fluxFields st)).
            0 + j = i \<longrightarrow> snd (zip filterList (fluxFields st) ! j) = None"
      using assms(4,5,6) by simp
    from forBands_sentinel[OF f s0 this] show ?thesis .
  qed
qed

lemmas example_ref_defs =
  getFgcmReferenceStarsSkyCircle_def determine_flux_fields_def referenceMagnitudes_def
  zipBands_def
  fluxFieldOf_def colorTermPass_def maskSelect_def setGood_def refDegreesPerRadian_def
  exampleLoader_def exampleRefConfig_def exampleRefCatalog_def freshState_def
  isRuntimeError_def bindE_def Let_def

text \<open>
  Without color terms, a band without a flux field is not passed over: the pass raises.
\<close>

lemma fluxPass_without_field_raises:
  "fluxPass L refCat selected i (filterName, None) cat = Inl (TypeError ''NoneType'')"
  by (simp add: fluxPass_def)

section \<open>Claims about the reference catalog loader\<close>

text \<open>
  Claim C7, as the code has it.  With color terms applied, for every band whose
  reference filter lookup fails: the lookup yields no flux field instead of raising; the
  loop over the bands passes the band over and goes on with the remaining bands; and in
  the catalog that a call returns, after determining the flux fields, the reference
  magnitudes and errors of that band are 99 in every row.
\<close>

theorem failed_reference_filter_leaves_sentinel:
  assumes "applyColorTerms cfg"
      and "fluxFilters st0 \<noteq> Some filterList"
      and "i < length filterList"
      and "lookupFails L cfg (filterList ! i)"
  shows "(\<forall>results. fluxFieldOf L cfg results (filterList ! i) = Inr None) \<and>
         (\<forall>refCat selected refCatName rest k cat0.
            forBands (colorTermPass L refCat selected refCatName)
              ((filterList ! i, None) # rest) k cat0
            = forBands (colorTermPass L refCat selected refCatName) rest (k + 1) cat0) \<and>
         (\<forall>cat st. getFgcmReferenceStarsSkyCircle L cfg radius filterList st0 = (Inr cat, st) \<longrightarrow>
            list_all (\<lambda>row. row ! i = 99) (refMag cat) \<and>
            list_all (\<lambda>row. row ! i = 99) (refMagErr cat))"
proof (intro conjI allI impI)
  fix results
  show "fluxFieldOf L cfg results (filterList ! i) = Inr None"
    using assms(4) by (rule fluxFieldOf_fails)
next
  fix refCat selected refCatName rest k cat0
  show "forBands (colorTermPass L refCat selected refCatName)
              ((filterList ! i, None) # rest) k cat0
            = forBands (colorTermPass L refCat selected refCatName) rest (k + 1) cat0"
    by (simp add: colorTermPass_def bindE_def)
next
  fix cat st
  assume r: "getFgcmReferenceStarsSkyCircle L cfg radius filterList st0 = (Inr cat, st)"
  from r assms(2) have d: "determine_flux_fields L cfg filterList st0 = (None, st)"
    and m: "referenceMagnitudes L cfg radius filterList st = Inr cat"
    by (auto simp: getFgcmReferenceStarsSkyCircle_def split: prod.splits option.splits)
  from determine_flux_fields_None[OF d assms(3,4)]
       referenceMagnitudes_sentinel[OF m assms(1) _ _ assms(3)]
  have s: "sentinelAt i (refMag cat) \<and> sentinelAt i (refMagErr cat)" by simp
  from s show "list_all (\<lambda>row. row ! i = 99) (refMag cat)" by (simp add: sentinelAt_def)
  from s show "list_all (\<lambda>row. row ! i = 99) (refMagErr cat)" by (simp add: sentinelAt_def)
qed

text \<open>
  The camera filter \<open>i\<close> is not in the filter map: the call returns, the band \<open>r\<close> has its
  corrected magnitudes, and the band \<open>i\<close> is 99 in both rows.
\<close>

theorem failed_reference_filter_leaves_sentinel_witness:
  "lookupFails (exampleLoader True) (exampleRefConfig False) ([''r'', ''i''] ! 1) \<and>
   (\<exists>cat st.
      getFgcmReferenceStarsSkyCircle (exampleLoader True) (exampleRefConfig False) 0.1
        [''r'', ''i''] freshState = (Inr cat, st) \<and>
      fluxFields st = [Some ''r_flux'', None] \<and>
      refMag cat = [[20, 99], [21, 99]] \<and>
      list_all (\<lambda>row. row ! 1 = 99) (refMagErr cat))"
proof -
  have a: "applyColorTerms (exampleRefConfig False)" by (simp add: exampleRefConfig_def)
  have b: "fluxFilters freshState \<noteq> Some [''r'', ''i'']" by (simp add: freshState_def)
  have c: "1 < length [''r'', ''i'']" by simp
  have d: "lookupFails (exampleLoader True) (exampleRefConfig False) ([''r'', ''i''] ! 1)"
    by (simp add: lookupFails_def exampleRefConfig_def)
  have "\<exists>cat st.
      getFgcmReferenceStarsSkyCircle (exampleLoader True) (exampleRefConfig False) 0.1
        [''r'', ''i''] freshState = (Inr cat, st) \<and>
      fluxFields st = [Some ''r_flux'', None] \<and>
      refMag cat = [[20, 99], [21, 99]]"
    by (simp add: example_ref_defs numeral_2_eq_2)
  then obtain cat st where
    r: "getFgcmReferenceStarsSkyCircle (exampleLoader True) (exampleRefConfig False) 0.1
        [''r'', ''i''] freshState = (Inr cat, st)"
    and f: "fluxFields st = [Some ''r_flux'', None]" "refMag cat = [[20, 99], [21, 99]]"
    by (elim exE conjE) (rule that)
  from failed_reference_filter_leaves_sentinel[OF a b c d, where radius="0.1"] r
  have "list_all (\<lambda>row. row ! 1 = 99) (refMagErr cat)" by blast
  with d r f show ?thesis by (intro conjI exI[of _ cat] exI[of _ st])
qed

text \<open>
  Both camera filters have a flux field, and there is no color term for \<open>i\<close>: the lookup
  of the color term raises, and the call ends with that exception instead of returning a
  catalog.  So a failing color-term lookup is not recovered band by band.
\<close>

theorem colorterm_failure_aborts_counterexample:
  "refFilterMap (exampleRefConfig True) ''i'' = Some ''i'' \<and>
   getColorterm (exampleLoader False) ''i'' ''ps1_pv3_3pi_20170110''
     = Inl (LookupError ''No colorterm found for filter i'') \<and>
   fst (getFgcmReferenceStarsSkyCircle (exampleLoader False) (exampleRefConfig True) 0.1
          [''r'', ''i''] freshState)
     = Inl (LookupError ''No colorterm found for filter i'')"
  by (simp add: example_ref_defs numeral_2_eq_2)

end
